theory Spec2Isabelle
  imports
    Complex_Main
    "HOL-Library.Sublist"
    "HOL-Library.Char_ord"
    "HOL-Library.List_Lexorder"
    "HOL-Library.Product_Lexorder"
begin

section \<open>The procurement dashboard script \<open>SCM.py\<close>\<close>

text \<open>
  The script is one Streamlit page: it reads an uploaded sheet into a pandas DataFrame,
  checks the required columns (lines 27-31), cleans the frame (lines 33-43), applies the
  three sidebar filters (lines 55-62) and computes the delay, supplier, ranking,
  reconciliation and summary figures (lines 68-147).

  The embedding keeps the DataFrame as the script has it: a list of column labels and a
  list of rows, every row carrying its index label and its cell values by column label.
  What pandas does inside a call is written out where the script depends on it, and every
  exception that such a call raises on a frame the script can reach is a value of
  \<open>exn\<close>.
\<close>

subsection \<open>Cells, rows and frames\<close>

text \<open>
  A cell is what pandas holds after \<open>read_excel\<close>: a blank (\<open>NaN\<close>/\<open>None\<close>, which is
  also what an empty cell of the sheet is read as), the missing timestamp \<open>NaT\<close>, a text,
  a number or a timestamp. A number cell is the value it holds, an exact rational,
  whether pandas keeps it as \<open>int64\<close> or as \<open>float64\<close>; the arithmetic that the library
  does on numbers is said where it is used. A timestamp is its count of
  nanoseconds since the epoch, as \<open>datetime64[ns]\<close> stores it (the library's range check
  on differences of timestamps is not modelled). The column labels of a frame are texts;
  a label that the script reads is taken to occur once in the header, apart from the
  cases written out below. \<open>read_excel\<close> numbers the rows 0, 1, 2, ..., and this number
  is the row's index label.
\<close>

datatype cell = Null | NaT | Str string | Num rat | Ts int

record row =
  label :: nat
  cells :: "(string \<times> cell) list"

record table =
  columns :: "string list"
  rows :: "row list"

datatype exn = KeyError | AttributeError | TypeError | NameError | IndentationError

text \<open>\<open>cell_of r c\<close> is the value of row \<open>r\<close> in column \<open>c\<close>; a row that stores nothing for a
  column of the frame is blank there.\<close>

definition cell_of :: "row \<Rightarrow> string \<Rightarrow> cell" where
  "cell_of r c = (case map_of (cells r) c of Some v \<Rightarrow> v | None \<Rightarrow> Null)"

text \<open>\<open>pd.isna\<close>: blank and \<open>NaT\<close> are the two missing values.\<close>

definition isna :: "cell \<Rightarrow> bool" where
  "isna c = (c = Null \<or> c = NaT)"

text \<open>Boolean indexing \<open>df[mask]\<close>: the rows whose mask entry is true, in the frame's
  order, with their labels and the same columns.\<close>

definition select :: "(row \<Rightarrow> bool) \<Rightarrow> table \<Rightarrow> table" where
  "select p df = df\<lparr>rows := filter p (rows df)\<rparr>"

subsection \<open>Column names and the required columns (lines 24-31)\<close>

text \<open>Python's \<open>str.strip()\<close> removes leading and trailing whitespace. A character of
  a label is its code point, here up to \<open>0xFF\<close>; among these the whitespace is tab, line
  feed, vertical tab, form feed, carriage return, the four separators \<open>0x1C\<close>-\<open>0x1F\<close>,
  the space, the next-line control \<open>0x85\<close> and the no-break space \<open>0xA0\<close>.\<close>

definition is_space :: "char \<Rightarrow> bool" where
  "is_space c = (c \<in> set [CHR 0x09, CHR 0x0A, CHR 0x0B, CHR 0x0C, CHR 0x0D,
                           CHR 0x1C, CHR 0x1D, CHR 0x1E, CHR 0x1F, CHR 0x20,
                           CHR 0x85, CHR 0xA0])"

definition strip :: "string \<Rightarrow> string" where
  "strip s = rev (dropWhile is_space (rev (dropWhile is_space s)))"

definition strip_columns :: "table \<Rightarrow> table" where
  "strip_columns df =
     \<lparr>columns = map strip (columns df),
      rows = map (\<lambda>r. r\<lparr>cells := map (\<lambda>(k, v). (strip k, v)) (cells r)\<rparr>) (rows df)\<rparr>"

definition required_columns :: "string list" where
  "required_columns =
     [''Sales Order No'', ''Customer Name'', ''PO Number'', ''PO Total Amount (EGP)'',
      ''Invoice Amount'', ''Delivery Date'', ''PO Date'', ''Estimated Delivery Date'',
      ''Quantity'', ''Received Quantity'']"

definition missing_columns :: "table \<Rightarrow> string list" where
  "missing_columns df = filter (\<lambda>col. col \<notin> set (columns df)) required_columns"

subsection \<open>Cleaning the frame (lines 33-43)\<close>

text \<open>
  \<open>df['Sales Order No'].str\<close> exists only on a column of text dtype. \<open>read_excel\<close> gives a
  column the dtype \<open>object\<close> when it has no row at all, when it holds a text, or when it
  mixes numbers with timestamps; a column of numbers and blanks is \<open>int64\<close>/\<open>float64\<close>, one
  of timestamps is \<open>datetime64\<close>, and on those \<open>.str\<close> raises \<open>AttributeError\<close>. When the
  header carries the label twice (as it can after stripping), \<open>df['Sales Order No']\<close> is
  a frame of two columns, which has no \<open>.str\<close> either.
\<close>

fun is_Str :: "cell \<Rightarrow> bool" where
  "is_Str (Str s) = True"
| "is_Str c = False"

fun is_Num :: "cell \<Rightarrow> bool" where
  "is_Num (Num q) = True"
| "is_Num c = False"

fun is_Ts :: "cell \<Rightarrow> bool" where
  "is_Ts (Ts n) = True"
| "is_Ts c = False"

definition has_str_accessor :: "cell list \<Rightarrow> bool" where
  "has_str_accessor xs =
     (xs = [] \<or> list_ex is_Str xs \<or> (list_ex is_Num xs \<and> list_ex is_Ts xs))"

text \<open>\<open>.str.contains(pat, na=False)\<close> on one cell: a text is searched for the pattern
  (the pattern \<open>Summary\<close> has no regular-expression operator, so the search is for the
  literal, case-sensitive); any other cell gives the \<open>na\<close> value \<open>False\<close>.\<close>

fun str_contains :: "string \<Rightarrow> cell \<Rightarrow> bool" where
  "str_contains pat (Str s) = sublist pat s"
| "str_contains pat c = False"

definition dropna :: "string \<Rightarrow> table \<Rightarrow> table" where
  "dropna c df = select (\<lambda>r. \<not> isna (cell_of r c)) df"

text \<open>
  \<open>pd.to_datetime(..., errors='coerce')\<close> is the library's parser, applied to a whole
  column (it may settle on one date format for the column, so what a cell parses to can
  depend on the cells around it). It is a parameter \<open>to_datetime\<close> that gives, for the
  cells of a column in order, the timestamp of each or \<open>None\<close> where the cell does not
  parse; the script stores \<open>NaT\<close> there.
\<close>

definition coerce :: "int option list \<Rightarrow> nat \<Rightarrow> cell" where
  "coerce parsed i =
     (if i < length parsed
      then (case parsed ! i of Some n \<Rightarrow> Ts n | None \<Rightarrow> NaT)
      else NaT)"

definition set_cell :: "string \<Rightarrow> cell \<Rightarrow> row \<Rightarrow> row" where
  "set_cell c v r = r\<lparr>cells := (c, v) # filter (\<lambda>kv. fst kv \<noteq> c) (cells r)\<rparr>"

definition convert_column :: "(cell list \<Rightarrow> int option list) \<Rightarrow> string \<Rightarrow> table \<Rightarrow> table" where
  "convert_column to_datetime c df =
     (let parsed = to_datetime (map (\<lambda>r. cell_of r c) (rows df))
      in df\<lparr>rows := map (\<lambda>(i, r). set_cell c (coerce parsed i) r) (enumerate 0 (rows df))\<rparr>)"

definition date_columns :: "string list" where
  "date_columns = [''Delivery Date'', ''PO Date'', ''Estimated Delivery Date'']"

definition normalizer :: "(cell list \<Rightarrow> int option list) \<Rightarrow> table \<Rightarrow> exn + table" where
  "normalizer to_datetime df =
     (if ''Sales Order No'' \<notin> set (columns df) then Inl KeyError
      else if 1 < count_list (columns df) ''Sales Order No'' then Inl AttributeError
      else if \<not> has_str_accessor (map (\<lambda>r. cell_of r ''Sales Order No'') (rows df))
      then Inl AttributeError
      else
        let df1 = select (\<lambda>r. \<not> str_contains ''Summary'' (cell_of r ''Sales Order No'')) df;
            df2 = dropna ''Sales Order No'' df1
        in Inr (fold (\<lambda>col d. if col \<in> set (columns d)
                               then convert_column to_datetime col d else d)
                     date_columns df2))"

subsection \<open>The sidebar filters (lines 55-62)\<close>

text \<open>
  A multiselect returns the list of the chosen values; an empty list is false in Python
  and the filter of that attribute is skipped. \<open>Series.isin\<close> keeps a row when its value
  is one of the chosen values (a blank matches a chosen blank). Indexing a column that the
  frame does not have raises \<open>KeyError\<close>.
\<close>

record filter_spec =
  sales_order_no :: "cell list"
  customer_name :: "cell list"
  supplier :: "cell list"

definition isin :: "string \<Rightarrow> cell list \<Rightarrow> table \<Rightarrow> exn + table" where
  "isin c vals df =
     (if c \<notin> set (columns df) then Inl KeyError
      else Inr (select (\<lambda>r. cell_of r c \<in> set vals) df))"

definition restrict :: "string \<Rightarrow> cell list \<Rightarrow> table \<Rightarrow> exn + table" where
  "restrict c vals df = (if vals \<noteq> [] then isin c vals df else Inr df)"

definition filtered_df :: "filter_spec \<Rightarrow> table \<Rightarrow> exn + table" where
  "filtered_df fs df =
     (case restrict ''Sales Order No'' (sales_order_no fs) df of
        Inl e \<Rightarrow> Inl e
      | Inr d1 \<Rightarrow>
          (case restrict ''Customer Name'' (customer_name fs) d1 of
             Inl e \<Rightarrow> Inl e
           | Inr d2 \<Rightarrow> restrict ''Supplier'' (supplier fs) d2))"

definition empty_spec :: filter_spec where
  "empty_spec = \<lparr>sales_order_no = [], customer_name = [], supplier = []\<rparr>"

subsection \<open>Shipment delay (lines 72-82)\<close>

text \<open>
  After line 43 a date column holds timestamps and \<open>NaT\<close> only. The difference of two
  timestamps is a \<open>Timedelta\<close>, whose \<open>.days\<close> is the floor of the difference in days; a
  difference with \<open>NaT\<close> is missing, and a comparison with a missing value is false.
  The slider of line 72 hands over an integer between 0 and 90.
\<close>

fun ts_of :: "cell \<Rightarrow> int option" where
  "ts_of (Ts n) = Some n"
| "ts_of c = None"

definition ns_per_day :: int where
  "ns_per_day = 86400 * 1000000000"

definition dt_days :: "cell \<Rightarrow> cell \<Rightarrow> int option" where
  "dt_days a b =
     (case (ts_of a, ts_of b) of
        (Some x, Some y) \<Rightarrow> Some ((x - y) div ns_per_day)
      | _ \<Rightarrow> None)"

definition more_than :: "int option \<Rightarrow> int \<Rightarrow> bool" where
  "more_than d n = (case d of Some k \<Rightarrow> k > n | None \<Rightarrow> False)"

definition delayed_shipments :: "int \<Rightarrow> table \<Rightarrow> exn + table" where
  "delayed_shipments delay_threshold fdf =
     (if ''Estimated Delivery Date'' \<notin> set (columns fdf) then Inl KeyError
      else if ''Delivery Date'' \<notin> set (columns fdf) then Inl KeyError
      else Inr (select (\<lambda>r. more_than (dt_days (cell_of r ''Estimated Delivery Date'')
                                                 (cell_of r ''Delivery Date''))
                                        delay_threshold) fdf))"

definition critical_alert :: "table \<Rightarrow> bool" where
  "critical_alert delayed = (length (rows delayed) > 5)"

subsection \<open>Grouping and aggregation\<close>

text \<open>
  \<open>groupby(c)\<close> leaves out the rows whose key is missing and presents one group per
  distinct key, the keys in ascending order: numbers by value, texts by code point.
  \<open>nunique\<close> counts the distinct values that are not missing. \<open>sum\<close> skips blanks and
  adds numbers. \<open>sum_cells\<close> is the total of an amount column, which the page only shows
  and ranks: it is kept as the exact sum (the totals of the quantity columns, which line
  129 compares with 0, have their machine arithmetic, see below). The amount column is
  numeric; a text or a timestamp among the summands ends the run with an exception (in
  pandas at the sum itself or at the ranking or formatting of the sum), which the model
  raises at the sum as \<open>TypeError\<close>.
\<close>

fun cell_key :: "cell \<Rightarrow> nat \<times> rat \<times> string \<times> int" where
  "cell_key (Num q) = (0, q, [], 0)"
| "cell_key (Str s) = (1, 0, s, 0)"
| "cell_key (Ts n) = (2, 0, [], n)"
| "cell_key c = (3, 0, [], 0)"

definition column_values :: "string \<Rightarrow> row list \<Rightarrow> cell list" where
  "column_values c rs = map (\<lambda>r. cell_of r c) rs"

definition group_keys :: "string \<Rightarrow> table \<Rightarrow> cell list" where
  "group_keys c df =
     sort_key cell_key (remdups (filter (\<lambda>v. \<not> isna v) (column_values c (rows df))))"

definition group_rows :: "string \<Rightarrow> cell \<Rightarrow> table \<Rightarrow> row list" where
  "group_rows c k df = filter (\<lambda>r. cell_of r c = k) (rows df)"

definition nunique :: "cell list \<Rightarrow> nat" where
  "nunique xs = length (remdups (filter (\<lambda>v. \<not> isna v) xs))"

fun sum_cells :: "cell list \<Rightarrow> exn + rat" where
  "sum_cells [] = Inr 0"
| "sum_cells (Null # xs) = sum_cells xs"
| "sum_cells (Num q # xs) = (case sum_cells xs of Inl e \<Rightarrow> Inl e | Inr s \<Rightarrow> Inr (q + s))"
| "sum_cells (c # xs) = Inl TypeError"

text \<open>Running one aggregation per group stops at the first group that raises.\<close>

fun collect :: "('a \<Rightarrow> exn + 'b) \<Rightarrow> 'a list \<Rightarrow> exn + 'b list" where
  "collect f [] = Inr []"
| "collect f (x # xs) =
     (case f x of
        Inl e \<Rightarrow> Inl e
      | Inr y \<Rightarrow> (case collect f xs of Inl e \<Rightarrow> Inl e | Inr ys \<Rightarrow> Inr (y # ys)))"

subsection \<open>Supplier performance (lines 88-95)\<close>

text \<open>
  The two lambdas of lines 91-92 compare the delivery dates of a group with the estimated
  dates that \<open>filtered_df.loc\<close> finds under the same index labels. \<open>read_excel\<close> numbers
  the rows 0, 1, 2, ... and boolean indexing keeps the labels, so a label names one row.
  A comparison in which either side is \<open>NaT\<close> is false, so such a row counts neither as
  on time nor as delayed.
\<close>

definition loc :: "table \<Rightarrow> nat \<Rightarrow> row option" where
  "loc df i = find (\<lambda>r. label r = i) (rows df)"

fun ts_le :: "cell \<Rightarrow> cell \<Rightarrow> bool" where
  "ts_le (Ts a) (Ts b) = (a \<le> b)"
| "ts_le x y = False"

fun ts_gt :: "cell \<Rightarrow> cell \<Rightarrow> bool" where
  "ts_gt (Ts a) (Ts b) = (a > b)"
| "ts_gt x y = False"

definition on_time :: "table \<Rightarrow> row \<Rightarrow> bool" where
  "on_time fdf r =
     (case loc fdf (label r) of
        Some r' \<Rightarrow> ts_le (cell_of r ''Delivery Date'') (cell_of r' ''Estimated Delivery Date'')
      | None \<Rightarrow> False)"

definition late :: "table \<Rightarrow> row \<Rightarrow> bool" where
  "late fdf r =
     (case loc fdf (label r) of
        Some r' \<Rightarrow> ts_gt (cell_of r ''Delivery Date'') (cell_of r' ''Estimated Delivery Date'')
      | None \<Rightarrow> False)"

text \<open>
  Line 95 divides two integer columns: pandas makes both \<open>float64\<close> and divides as IEEE
  does, so a zero divisor raises nothing and gives \<open>NaN\<close> for 0/0 and \<open>inf\<close> for a
  positive dividend. A finite quotient is kept as the exact rational. When the frame has
  no supplier group at all (no row, or no row with a supplier), the two lambdas are never
  called and their empty columns keep the datetime dtype of "Delivery Date", which line
  95 cannot divide: \<open>TypeError\<close>.
\<close>

datatype fval = Fin rat | PosInf | NegInf | NaN

definition true_div :: "nat \<Rightarrow> nat \<Rightarrow> fval" where
  "true_div a b =
     (if b = 0 then (if a = 0 then NaN else PosInf) else Fin (of_nat a / of_nat b))"

fun times_100 :: "fval \<Rightarrow> fval" where
  "times_100 (Fin q) = Fin (q * 100)"
| "times_100 PosInf = PosInf"
| "times_100 NegInf = NegInf"
| "times_100 NaN = NaN"

record supplier_kpi =
  supplier_name :: cell
  total_orders :: nat
  total_procurement :: rat
  on_time_deliveries :: nat
  delayed_deliveries :: nat

record supplier_row = supplier_kpi +
  on_time_delivery_rate :: fval

definition agg_supplier :: "table \<Rightarrow> cell \<Rightarrow> exn + supplier_kpi" where
  "agg_supplier fdf k =
     (let g = group_rows ''Supplier'' k fdf in
      case sum_cells (column_values ''PO Total Amount (EGP)'' g) of
        Inl e \<Rightarrow> Inl e
      | Inr s \<Rightarrow>
          Inr \<lparr>supplier_name = k,
               total_orders = nunique (column_values ''PO Number'' g),
               total_procurement = s,
               on_time_deliveries = length (filter (on_time fdf) g),
               delayed_deliveries = length (filter (late fdf) g)\<rparr>)"

definition add_rate :: "supplier_kpi \<Rightarrow> supplier_row" where
  "add_rate k =
     supplier_kpi.extend k
       \<lparr>on_time_delivery_rate = times_100 (true_div (on_time_deliveries k) (total_orders k))\<rparr>"

definition supplier_performance :: "table \<Rightarrow> exn + supplier_row list" where
  "supplier_performance fdf =
     (if \<not> set [''Supplier'', ''PO Number'', ''PO Total Amount (EGP)'', ''Delivery Date'',
                 ''Estimated Delivery Date''] \<subseteq> set (columns fdf)
      then Inl KeyError
      else if group_keys ''Supplier'' fdf = [] then Inl TypeError
      else case collect (agg_supplier fdf) (group_keys ''Supplier'' fdf) of
             Inl e \<Rightarrow> Inl e
           | Inr ks \<Rightarrow> Inr (map add_rate ks))"

subsection \<open>Rankings (lines 104 and 108)\<close>

text \<open>\<open>nlargest(5)\<close>: the five entries of largest amount, largest first; among equal
  amounts the entry that comes first in the series stays first.\<close>

definition nlargest :: "nat \<Rightarrow> (cell \<times> rat) list \<Rightarrow> (cell \<times> rat) list" where
  "nlargest n xs = take n (sort_key (\<lambda>p. - snd p) xs)"

definition top_suppliers :: "supplier_row list \<Rightarrow> (cell \<times> rat) list" where
  "top_suppliers perf = nlargest 5 (map (\<lambda>k. (supplier_name k, total_procurement k)) perf)"

definition customer_total :: "table \<Rightarrow> cell \<Rightarrow> exn + cell \<times> rat" where
  "customer_total fdf k =
     (case sum_cells (column_values ''PO Total Amount (EGP)'' (group_rows ''Customer Name'' k fdf)) of
        Inl e \<Rightarrow> Inl e
      | Inr s \<Rightarrow> Inr (k, s))"

definition top_customers :: "table \<Rightarrow> exn + (cell \<times> rat) list" where
  "top_customers fdf =
     (if \<not> set [''Customer Name'', ''PO Total Amount (EGP)''] \<subseteq> set (columns fdf)
      then Inl KeyError
      else case collect (customer_total fdf) (group_keys ''Customer Name'' fdf) of
             Inl e \<Rightarrow> Inl e
           | Inr ts \<Rightarrow> Inr (nlargest 5 ts))"

subsection \<open>Quantity against receipts (lines 112-133)\<close>

text \<open>
  The guard of line 115 looks for the three columns; without them line 133 shows the
  message "The required columns for Receipts vs. Invoice Comparison are missing." through
  \<open>st.error\<close>, which displays and returns: the script goes on with the next statement.
\<close>

text \<open>
  The sums of lines 118-119 and the subtraction of line 123 are made in the dtype of the
  columns: \<open>int64\<close> wraps around, \<open>float64\<close> rounds (and the grouped sum is a compensated
  one), and a column with a blank is \<open>float64\<close>. This arithmetic is a parameter of the
  reconciliation: \<open>column_sum ar c xs\<close> is the total that the library forms of the numbers
  \<open>xs\<close> of one group of column \<open>c\<close>, and \<open>subtract ar\<close> is the subtraction of two
  totals. A total is a finite value, an infinity or \<open>NaN\<close>; line 129 compares it with 0,
  which both float zeros equal and \<open>NaN\<close> and the infinities do not.
\<close>

record arith =
  column_sum :: "string \<Rightarrow> rat list \<Rightarrow> fval"
  subtract :: "fval \<Rightarrow> fval \<Rightarrow> fval"

text \<open>The numbers of the cells of one group: blanks are skipped; a text or a timestamp
  among them ends the reconciliation with \<open>TypeError\<close> (at the sum, or at line 123 when
  the sum has joined the texts of a group).\<close>

fun numbers :: "cell list \<Rightarrow> exn + rat list" where
  "numbers [] = Inr []"
| "numbers (Null # xs) = numbers xs"
| "numbers (Num q # xs) = (case numbers xs of Inl e \<Rightarrow> Inl e | Inr qs \<Rightarrow> Inr (q # qs))"
| "numbers (c # xs) = Inl TypeError"

text \<open>The arithmetic of two \<open>int64\<close> columns (whole numbers, no blank): sums and
  differences are taken modulo \<open>2^64\<close> in the signed range.\<close>

definition int64 :: "int \<Rightarrow> int" where
  "int64 n = (n + 2 ^ 63) mod 2 ^ 64 - 2 ^ 63"

fun int64_subtract :: "fval \<Rightarrow> fval \<Rightarrow> fval" where
  "int64_subtract (Fin a) (Fin b) = Fin (of_int (int64 \<lfloor>a - b\<rfloor>))"
| "int64_subtract x y = NaN"

definition int64_arith :: arith where
  "int64_arith =
     \<lparr>column_sum = (\<lambda>c xs. Fin (of_int (int64 \<lfloor>sum_list xs\<rfloor>))),
      subtract = int64_subtract\<rparr>"

record po_totals =
  po_number :: cell
  total_quantity :: fval
  total_received :: fval

record po_row = po_totals +
  difference :: fval

datatype reconciliation =
    Columns_missing
  | Reconciled (receipts_vs_quantity: "po_row list") (mismatches: "po_row list")

definition agg_po :: "arith \<Rightarrow> table \<Rightarrow> cell \<Rightarrow> exn + po_totals" where
  "agg_po ar fdf k =
     (let g = group_rows ''PO Number'' k fdf in
      case numbers (column_values ''Quantity'' g) of
        Inl e \<Rightarrow> Inl e
      | Inr qs \<Rightarrow>
          (case numbers (column_values ''Received Quantity'' g) of
             Inl e \<Rightarrow> Inl e
           | Inr rs \<Rightarrow>
               Inr \<lparr>po_number = k,
                    total_quantity = column_sum ar ''Quantity'' qs,
                    total_received = column_sum ar ''Received Quantity'' rs\<rparr>))"

definition add_difference :: "arith \<Rightarrow> po_totals \<Rightarrow> po_row" where
  "add_difference ar p =
     po_totals.extend p
       \<lparr>difference = subtract ar (total_quantity p) (total_received p)\<rparr>"

definition reconcile :: "arith \<Rightarrow> table \<Rightarrow> exn + reconciliation" where
  "reconcile ar fdf =
     (if list_all (\<lambda>col. col \<in> set (columns fdf)) [''PO Number'', ''Quantity'', ''Received Quantity'']
      then case collect (agg_po ar fdf) (group_keys ''PO Number'' fdf) of
             Inl e \<Rightarrow> Inl e
           | Inr ps \<Rightarrow>
               (let rvq = map (add_difference ar) ps
                in Inr (Reconciled rvq (filter (\<lambda>p. difference p \<noteq> Fin 0) rvq)))
      else Inr Columns_missing)"

subsection \<open>Summary figures (lines 140-147)\<close>

text \<open>\<open>len(col.unique())\<close> counts the distinct values of the column; the total is the
  sum of the amount column (its layout as a text with separators is presentation); the
  count of line 146 is the number of rows delivered after their estimated date.\<close>

record summary =
  total_sales_orders :: nat
  total_po_amount :: rat
  delayed_count :: nat

definition summary_metrics :: "table \<Rightarrow> exn + summary" where
  "summary_metrics fdf =
     (if \<not> set [''Sales Order No'', ''PO Total Amount (EGP)'', ''Delivery Date'',
                 ''Estimated Delivery Date''] \<subseteq> set (columns fdf)
      then Inl KeyError
      else case sum_cells (column_values ''PO Total Amount (EGP)'' (rows fdf)) of
             Inl e \<Rightarrow> Inl e
           | Inr s \<Rightarrow>
               Inr \<lparr>total_sales_orders = length (remdups (column_values ''Sales Order No'' (rows fdf))),
                    total_po_amount = s,
                    delayed_count =
                      length (filter (\<lambda>r. ts_gt (cell_of r ''Delivery Date'')
                                                 (cell_of r ''Estimated Delivery Date''))
                                     (rows fdf))\<rparr>)"

subsection \<open>The page from upload to figures\<close>

text \<open>
  The file as given does not run: lines 112-133 (the reconciliation) start in column 0,
  which ends the \<open>if uploaded_file:\<close> block, while lines 136-163 after them are indented
  by eight blanks as their neighbours before line 112 are, and Python's parser refuses
  line 137 with \<open>IndentationError\<close>. Three readings are therefore kept apart:
  \<^item> \<open>file_as_given\<close>, the whole file: the parser's refusal, before any statement runs;
  \<^item> \<open>page_as_written\<close>, lines 1-133 as they stand (the longest beginning of the file
    that parses): lines 112-133 are module-level code that runs after the block of
    line 19, whether or not that block has bound \<open>filtered_df\<close>;
  \<^item> \<open>run\<close>, the page with lines 112-133 indented into the \<open>else\<close> branch of line 32
    like the lines around them, so that all figures of lines 68-147 follow one another.
  The figures are computed one after the other in the order of the text; an exception in
  one of them ends the run.
\<close>

record dashboard =
  shown :: table
  delayed :: table
  alert :: bool
  performance :: "supplier_row list"
  suppliers_top :: "(cell \<times> rat) list"
  customers_top :: "(cell \<times> rat) list"
  reconciled :: reconciliation
  figures :: summary

definition metrics :: "arith \<Rightarrow> int \<Rightarrow> table \<Rightarrow> exn + dashboard" where
  "metrics ar delay_threshold fdf =
     (case delayed_shipments delay_threshold fdf of
        Inl e \<Rightarrow> Inl e
      | Inr ds \<Rightarrow>
     (case supplier_performance fdf of
        Inl e \<Rightarrow> Inl e
      | Inr perf \<Rightarrow>
     (case top_customers fdf of
        Inl e \<Rightarrow> Inl e
      | Inr tc \<Rightarrow>
     (case reconcile ar fdf of
        Inl e \<Rightarrow> Inl e
      | Inr rc \<Rightarrow>
     (case summary_metrics fdf of
        Inl e \<Rightarrow> Inl e
      | Inr sm \<Rightarrow>
          Inr \<lparr>shown = fdf, delayed = ds, alert = critical_alert ds, performance = perf,
               suppliers_top = top_suppliers perf, customers_top = tc, reconciled = rc,
               figures = sm\<rparr>)))))"

text \<open>
  \<open>run\<close> is the script from line 19 on: nothing happens without an upload; the column
  names are stripped; if a required column is missing, line 31 reports the missing names
  and the \<open>else\<close> branch with all the rest is not entered. Line 52 reads
  \<open>df["Supplier"]\<close>, which is not among the required columns; lines 51-52 call \<open>.unique()\<close>
  on the customer and supplier columns, which a frame of two columns of one label does
  not have.
\<close>

datatype outcome =
    No_upload
  | Missing_columns (missing: "string list")
  | Raised (raised: exn)
  | Rendered (rendered: dashboard)

definition run ::
  "arith \<Rightarrow> (cell list \<Rightarrow> int option list) \<Rightarrow> filter_spec \<Rightarrow> int \<Rightarrow> table option \<Rightarrow> outcome" where
  "run ar to_datetime fs delay_threshold uploaded_file =
     (case uploaded_file of
        None \<Rightarrow> No_upload
      | Some sheet \<Rightarrow>
          (let df = strip_columns sheet in
           if missing_columns df \<noteq> [] then Missing_columns (missing_columns df)
           else (case normalizer to_datetime df of
                   Inl e \<Rightarrow> Raised e
                 | Inr df' \<Rightarrow>
                     (if ''Supplier'' \<notin> set (columns df') then Raised KeyError
                      else if 1 < count_list (columns df') ''Customer Name'' \<or>
                              1 < count_list (columns df') ''Supplier''
                      then Raised AttributeError
                      else (case filtered_df fs df' of
                              Inl e \<Rightarrow> Raised e
                            | Inr fdf \<Rightarrow>
                                (case metrics ar delay_threshold fdf of
                                   Inl e \<Rightarrow> Raised e
                                 | Inr d \<Rightarrow> Rendered d))))))"

text \<open>
  What the page shows, in order, for the reading as written. \<open>upload_block\<close> is the block
  of line 19 up to line 109: it gives what it has shown and either the exception that
  ended it or the binding of the name \<open>filtered_df\<close> when it ends (\<open>None\<close> when the
  \<open>else\<close> branch of line 32 was not entered). \<open>lines_112_133\<close> shows the heading of line
  112 and evaluates the guard of line 115, which reads \<open>filtered_df\<close>: an unbound name
  raises \<open>NameError\<close>.
\<close>

datatype event =
    Missing_report "string list"
  | Filtered_data table
  | Delayed_data table
  | Critical_warning
  | Supplier_table "supplier_row list"
  | Top_suppliers "(cell \<times> rat) list"
  | Top_customers "(cell \<times> rat) list"
  | Receipts_heading
  | Receipts reconciliation
  | Raise exn

definition figures_68_109 :: "int \<Rightarrow> table \<Rightarrow> event list \<times> (exn + table option)" where
  "figures_68_109 delay_threshold fdf =
     (case delayed_shipments delay_threshold fdf of
        Inl e \<Rightarrow> ([Filtered_data fdf], Inl e)
      | Inr ds \<Rightarrow>
          (let seen = [Filtered_data fdf, Delayed_data ds] @
                       (if critical_alert ds then [Critical_warning] else [])
           in case supplier_performance fdf of
                Inl e \<Rightarrow> (seen, Inl e)
              | Inr perf \<Rightarrow>
                  (case top_customers fdf of
                     Inl e \<Rightarrow>
                       (seen @ [Supplier_table perf, Top_suppliers (top_suppliers perf)], Inl e)
                   | Inr tc \<Rightarrow>
                       (seen @ [Supplier_table perf, Top_suppliers (top_suppliers perf),
                                 Top_customers tc],
                        Inr (Some fdf)))))"

definition upload_block ::
  "(cell list \<Rightarrow> int option list) \<Rightarrow> filter_spec \<Rightarrow> int \<Rightarrow> table \<Rightarrow>
     event list \<times> (exn + table option)" where
  "upload_block to_datetime fs delay_threshold sheet =
     (let df = strip_columns sheet in
      if missing_columns df \<noteq> [] then ([Missing_report (missing_columns df)], Inr None)
      else (case normalizer to_datetime df of
              Inl e \<Rightarrow> ([], Inl e)
            | Inr df' \<Rightarrow>
                (if ''Supplier'' \<notin> set (columns df') then ([], Inl KeyError)
                 else if 1 < count_list (columns df') ''Customer Name'' \<or>
                         1 < count_list (columns df') ''Supplier''
                 then ([], Inl AttributeError)
                 else (case filtered_df fs df' of
                         Inl e \<Rightarrow> ([], Inl e)
                       | Inr fdf \<Rightarrow> figures_68_109 delay_threshold fdf))))"

definition lines_112_133 :: "arith \<Rightarrow> table option \<Rightarrow> event list" where
  "lines_112_133 ar binding =
     Receipts_heading #
     (case binding of
        None \<Rightarrow> [Raise NameError]
      | Some fdf \<Rightarrow> (case reconcile ar fdf of Inl e \<Rightarrow> [Raise e] | Inr rc \<Rightarrow> [Receipts rc]))"

definition page_as_written ::
  "arith \<Rightarrow> (cell list \<Rightarrow> int option list) \<Rightarrow> filter_spec \<Rightarrow> int \<Rightarrow> table option \<Rightarrow> event list" where
  "page_as_written ar to_datetime fs delay_threshold uploaded_file =
     (case (case uploaded_file of
              None \<Rightarrow> ([], Inr None)
            | Some sheet \<Rightarrow> upload_block to_datetime fs delay_threshold sheet) of
        (seen, Inl e) \<Rightarrow> seen @ [Raise e]
      | (seen, Inr binding) \<Rightarrow> seen @ lines_112_133 ar binding)"

definition file_as_given ::
  "arith \<Rightarrow> (cell list \<Rightarrow> int option list) \<Rightarrow> filter_spec \<Rightarrow> int \<Rightarrow> table option \<Rightarrow> event list" where
  "file_as_given ar to_datetime fs delay_threshold uploaded_file = [Raise IndentationError]"

subsection \<open>Sample sheets\<close>

text \<open>Small frames on which the figures are evaluated: an order line with its eleven
  cells, dates given in whole days.\<close>

definition day :: "int \<Rightarrow> cell" where
  "day n = Ts (n * ns_per_day)"

definition sheet_columns :: "string list" where
  "sheet_columns =
     [''Sales Order No'', ''Customer Name'', ''Supplier'', ''PO Number'',
      ''PO Total Amount (EGP)'', ''Invoice Amount'', ''Delivery Date'', ''PO Date'',
      ''Estimated Delivery Date'', ''Quantity'', ''Received Quantity'']"

definition order_line ::
  "nat \<Rightarrow> cell \<Rightarrow> string \<Rightarrow> string \<Rightarrow> cell \<Rightarrow> rat \<Rightarrow> rat \<Rightarrow> rat \<Rightarrow> cell \<Rightarrow> cell \<Rightarrow> row" where
  "order_line i so cust vendor po amount qty received delivered estimated =
     \<lparr>label = i,
      cells = [(''Sales Order No'', so), (''Customer Name'', Str cust), (''Supplier'', Str vendor),
               (''PO Number'', po), (''PO Total Amount (EGP)'', Num amount),
               (''Invoice Amount'', Num amount), (''Delivery Date'', delivered),
               (''PO Date'', day 0), (''Estimated Delivery Date'', estimated),
               (''Quantity'', Num qty), (''Received Quantity'', Num received)]\<rparr>"

text \<open>Two lines of one purchase order of supplier Acme, both delivered before their
  estimated date, and two lines of other suppliers without a PO number.\<close>

definition acme_frame :: table where
  "acme_frame =
     \<lparr>columns = sheet_columns,
      rows = [order_line 0 (Str ''SO-1'') ''Nile'' ''Acme'' (Str ''P1'') 100 10 10 (day 3) (day 5),
              order_line 1 (Str ''SO-2'') ''Nile'' ''Acme'' (Str ''P1'') 200 5 3 (day 4) (day 5),
              order_line 2 (Str ''SO-3'') ''Delta'' ''Bolt'' Null 50 1 1 (day 1) (day 2),
              order_line 3 (Str ''SO-4'') ''Delta'' ''Core'' Null 70 1 1 NaT (day 2)]\<rparr>"

definition acme_only :: filter_spec where
  "acme_only = \<lparr>sales_order_no = [], customer_name = [], supplier = [Str ''Acme'']\<rparr>"

text \<open>The sheet as it may arrive: a footer row marked "Summary", a row without an order
  identifier, and two order lines.\<close>

definition summary_sheet :: table where
  "summary_sheet =
     \<lparr>columns = sheet_columns,
      rows = [order_line 0 (Str ''SO-1'') ''Nile'' ''Acme'' (Str ''P1'') 100 10 10 (day 3) (day 5),
              order_line 1 Null ''Nile'' ''Acme'' (Str ''P1'') 200 5 3 (day 4) (day 5),
              order_line 2 (Str ''SO-3'') ''Delta'' ''Bolt'' (Str ''P2'') 50 1 1 (day 1) (day 2),
              order_line 3 (Str ''Summary of orders'') ''Delta'' ''Core'' Null 350 16 14 NaT NaT]\<rparr>"

text \<open>A sheet whose header lacks "PO Date" and "Quantity" (two other names carry stray
  blanks).\<close>

definition partial_sheet :: table where
  "partial_sheet =
     \<lparr>columns = ['' Sales Order No'', ''Customer Name  '', ''Supplier'', ''PO Number'',
                 ''PO Total Amount (EGP)'', ''Invoice Amount'', ''Delivery Date'',
                 ''Estimated Delivery Date'', ''Received Quantity''],
      rows = rows acme_frame\<rparr>"

text \<open>Purchase order X1 with two lines: 10 ordered and 10 received, 5 ordered and 3
  received; purchase order X2 with one line, 4 ordered and 4 received.\<close>

definition x1_frame :: table where
  "x1_frame =
     \<lparr>columns = sheet_columns,
      rows = [order_line 0 (Str ''SO-1'') ''Nile'' ''Acme'' (Str ''X1'') 100 10 10 (day 3) (day 5),
              order_line 1 (Str ''SO-2'') ''Nile'' ''Acme'' (Str ''X1'') 200 5 3 (day 4) (day 5),
              order_line 2 (Str ''SO-3'') ''Delta'' ''Bolt'' (Str ''X2'') 80 4 4 (day 4) (day 5)]\<rparr>"

text \<open>Lines whose estimated date lies 15 days, or 5 days, after the delivery.\<close>

definition line_15 :: "nat \<Rightarrow> row" where
  "line_15 i = order_line i (Str ''SO-15'') ''Nile'' ''Acme'' (Str ''P1'') 100 1 1 (day 5) (day 20)"

definition line_5 :: "nat \<Rightarrow> row" where
  "line_5 i = order_line i (Str ''SO-5'') ''Nile'' ''Acme'' (Str ''P2'') 100 1 1 (day 15) (day 20)"

definition delay_frame :: table where
  "delay_frame = \<lparr>columns = sheet_columns, rows = [line_15 0, line_5 1]\<rparr>"

definition five_frame :: table where
  "five_frame = \<lparr>columns = sheet_columns, rows = map line_15 [0, 1, 2, 3, 4] @ [line_5 5]\<rparr>"

definition six_frame :: table where
  "six_frame = \<lparr>columns = sheet_columns, rows = map line_15 [0, 1, 2, 3, 4, 5] @ [line_5 6]\<rparr>"

text \<open>\<open>without_column c df\<close> is the frame of a sheet that has no column \<open>c\<close>: the label
  is not in the header and no row holds a cell for it.\<close>

definition drop_cell :: "string \<Rightarrow> row \<Rightarrow> row" where
  "drop_cell c r = r\<lparr>cells := filter (\<lambda>kv. fst kv \<noteq> c) (cells r)\<rparr>"

definition without_column :: "string \<Rightarrow> table \<Rightarrow> table" where
  "without_column c df =
     \<lparr>columns = filter (\<lambda>k. k \<noteq> c) (columns df), rows = map (drop_cell c) (rows df)\<rparr>"

definition no_quantity_frame :: table where
  "no_quantity_frame = without_column ''Quantity'' (without_column ''Received Quantity'' delay_frame)"

section \<open>Properties\<close>

subsection \<open>The filters\<close>

text \<open>
  C4. With no value chosen for the order identifier, the customer name or the supplier
  name, the filter stage returns the frame it was given, with the same records.
\<close>

theorem filtered_df_empty_spec: "filtered_df empty_spec df = Inr df"
  by (simp add: filtered_df_def empty_spec_def restrict_def)


text \<open>The three filters are boolean selections on the rows of the frame they are given;
  the same selections are made on any frame with the same columns.\<close>

lemma columns_select [simp]: "columns (select p df) = columns df"
  by (simp add: select_def)

lemma rows_select [simp]: "rows (select p df) = filter p (rows df)"
  by (simp add: select_def)

lemma select_select: "select p (select q df) = select (\<lambda>r. q r \<and> p r) df"
  by (simp add: select_def)

lemma restrict_select:
  assumes "restrict c vals df = Inr d"
  shows "\<exists>p. d = select p df \<and>
             (\<forall>d'. columns d' = columns df \<longrightarrow> restrict c vals d' = Inr (select p d'))"
proof (cases "vals = []")
  case True
  with assms have "d = select (\<lambda>r. True) df"
    by (simp add: restrict_def select_def)
  moreover have "\<forall>d'. columns d' = columns df \<longrightarrow>
                      restrict c vals d' = Inr (select (\<lambda>r. True) d')"
    using True by (simp add: restrict_def select_def)
  ultimately show ?thesis by blast
next
  case False
  with assms have "c \<in> set (columns df)" and "d = select (\<lambda>r. cell_of r c \<in> set vals) df"
    by (auto simp: restrict_def isin_def split: if_splits)
  moreover from this False
  have "\<forall>d'. columns d' = columns df \<longrightarrow>
              restrict c vals d' = Inr (select (\<lambda>r. cell_of r c \<in> set vals) d')"
    by (simp add: restrict_def isin_def)
  ultimately show ?thesis by blast
qed

lemma filtered_df_select:
  assumes "filtered_df fs df = Inr fdf"
  shows "\<exists>p. fdf = select p df \<and>
             (\<forall>d'. columns d' = columns df \<longrightarrow> filtered_df fs d' = Inr (select p d'))"
proof -
  from assms obtain d1 d2 where
    r1: "restrict ''Sales Order No'' (sales_order_no fs) df = Inr d1" and
    r2: "restrict ''Customer Name'' (customer_name fs) d1 = Inr d2" and
    r3: "restrict ''Supplier'' (supplier fs) d2 = Inr fdf"
    by (auto simp: filtered_df_def split: sum.splits)
  from restrict_select[OF r1] obtain p1 where
    p1: "d1 = select p1 df"
        "\<And>d'. columns d' = columns df \<Longrightarrow>
              restrict ''Sales Order No'' (sales_order_no fs) d' = Inr (select p1 d')"
    by blast
  from restrict_select[OF r2] obtain p2 where
    p2: "d2 = select p2 d1"
        "\<And>d'. columns d' = columns d1 \<Longrightarrow>
              restrict ''Customer Name'' (customer_name fs) d' = Inr (select p2 d')"
    by blast
  from restrict_select[OF r3] obtain p3 where
    p3: "fdf = select p3 d2"
        "\<And>d'. columns d' = columns d2 \<Longrightarrow>
              restrict ''Supplier'' (supplier fs) d' = Inr (select p3 d')"
    by blast
  have eq: "fdf = select (\<lambda>r. (p1 r \<and> p2 r) \<and> p3 r) df"
    using p1(1) p2(1) p3(1) by (simp add: select_select)
  have "filtered_df fs d' = Inr (select (\<lambda>r. (p1 r \<and> p2 r) \<and> p3 r) d')"
    if c: "columns d' = columns df" for d'
  proof -
    have "restrict ''Sales Order No'' (sales_order_no fs) d' = Inr (select p1 d')"
      using p1(2) c by simp
    moreover
    have "restrict ''Customer Name'' (customer_name fs) (select p1 d')
            = Inr (select p2 (select p1 d'))"
      using p2(2) c p1(1) by simp
    moreover
    have "restrict ''Supplier'' (supplier fs) (select p2 (select p1 d'))
            = Inr (select p3 (select p2 (select p1 d')))"
      using p3(2) c p1(1) p2(1) by simp
    ultimately show ?thesis
      by (simp add: filtered_df_def select_select)
  qed
  with eq show ?thesis by blast
qed

lemma acme_only_rows:
  "filtered_df acme_only acme_frame =
     Inr (acme_frame\<lparr>rows := take 2 (rows acme_frame)\<rparr>)"
  by (simp add: filtered_df_def acme_only_def restrict_def isin_def select_def
      acme_frame_def sheet_columns_def order_line_def cell_of_def)

text \<open>
  C5. Filtering the filtered frame once more with the same selections gives the filtered
  frame again.
\<close>

theorem filtered_df_idempotent:
  assumes "filtered_df fs df = Inr fdf"
  shows "filtered_df fs fdf = Inr fdf"
proof -
  from filtered_df_select[OF assms] obtain p where
    p: "fdf = select p df"
       "\<And>d'. columns d' = columns df \<Longrightarrow> filtered_df fs d' = Inr (select p d')"
    by blast
  have "filtered_df fs fdf = Inr (select p fdf)"
    using p by simp
  also have "select p fdf = fdf"
    using p(1) by (simp add: select_def)
  finally show ?thesis .
qed

theorem filtered_df_idempotent_witness:
  "filtered_df acme_only acme_frame = Inr (acme_frame\<lparr>rows := take 2 (rows acme_frame)\<rparr>) \<and>
   filtered_df acme_only (acme_frame\<lparr>rows := take 2 (rows acme_frame)\<rparr>)
     = Inr (acme_frame\<lparr>rows := take 2 (rows acme_frame)\<rparr>)"
  using filtered_df_idempotent[OF acme_only_rows] acme_only_rows by simp

text \<open>
  C10. The filtered frame has the columns of its input, and its rows are a selection of
  the input's rows in the input's order: they form a subsequence of the input, each is a
  row of the input, and rows that carry different index labels in the input (as all rows
  of an uploaded sheet do) are not repeated.
\<close>

theorem filtered_df_subsequence:
  assumes "filtered_df fs df = Inr fdf"
  shows "columns fdf = columns df \<and>
         (\<exists>p. rows fdf = filter p (rows df)) \<and>
         subseq (rows fdf) (rows df) \<and>
         set (rows fdf) \<subseteq> set (rows df) \<and>
         (distinct (map label (rows df)) \<longrightarrow> distinct (map label (rows fdf)))"
proof -
  from filtered_df_select[OF assms] obtain p where p: "fdf = select p df"
    by blast
  then have r: "rows fdf = filter p (rows df)" by simp
  have "subseq (rows fdf) (rows df)" by (simp add: r)
  moreover have "distinct (map label (rows df)) \<longrightarrow> distinct (map label (rows fdf))"
    by (simp add: r distinct_map_filter)
  moreover have "set (rows fdf) \<subseteq> set (rows df)" by (auto simp: r)
  ultimately show ?thesis using p r by auto
qed

theorem filtered_df_subsequence_witness:
  "filtered_df acme_only acme_frame = Inr (acme_frame\<lparr>rows := take 2 (rows acme_frame)\<rparr>) \<and>
   distinct (map label (rows acme_frame)) \<and>
   subseq (take 2 (rows acme_frame)) (rows acme_frame) \<and>
   distinct (map label (take 2 (rows acme_frame)))"
  using filtered_df_subsequence[OF acme_only_rows] acme_only_rows
  by (simp add: acme_frame_def order_line_def)

subsection \<open>Cleaning\<close>

lemma map_of_filter_other:
  "c' \<noteq> c \<Longrightarrow> map_of (filter (\<lambda>kv. fst kv \<noteq> c) xs) c' = map_of xs c'"
  by (induction xs) auto

lemma cell_of_set_cell_other: "c' \<noteq> c \<Longrightarrow> cell_of (set_cell c v r) c' = cell_of r c'"
  by (simp add: cell_of_def set_cell_def map_of_filter_other)

lemma cell_of_set_cell_same: "cell_of (set_cell c v r) c = v"
  by (simp add: cell_of_def set_cell_def)

lemma convert_step_other:
  assumes "col \<noteq> c"
    and "r' \<in> set (rows (if col \<in> set (columns d) then convert_column td col d else d))"
  shows "\<exists>r \<in> set (rows d). cell_of r' c = cell_of r c"
  using assms
  by (auto simp: convert_column_def Let_def cell_of_set_cell_other in_set_enumerate_eq
      split: if_splits)

text \<open>Every row that leaves the cleaning stage comes from a row of the sheet that passed
  both tests of lines 34 and 37, and the date conversion has not touched its order
  identifier.\<close>

lemma normalizer_rows:
  assumes "normalizer td df = Inr out" and "r' \<in> set (rows out)"
  shows "\<exists>r \<in> set (rows df).
           cell_of r' ''Sales Order No'' = cell_of r ''Sales Order No'' \<and>
           \<not> str_contains ''Summary'' (cell_of r ''Sales Order No'') \<and>
           \<not> isna (cell_of r ''Sales Order No'')"
proof -
  let ?c = "''Sales Order No''"
  let ?d2 = "dropna ?c (select (\<lambda>r. \<not> str_contains ''Summary'' (cell_of r ?c)) df)"
  let ?s1 = "if ''Delivery Date'' \<in> set (columns ?d2)
             then convert_column td ''Delivery Date'' ?d2 else ?d2"
  let ?s2 = "if ''PO Date'' \<in> set (columns ?s1)
             then convert_column td ''PO Date'' ?s1 else ?s1"
  let ?s3 = "if ''Estimated Delivery Date'' \<in> set (columns ?s2)
             then convert_column td ''Estimated Delivery Date'' ?s2 else ?s2"
  from assms(1) have out: "out = ?s3"
    by (simp add: normalizer_def date_columns_def Let_def split: if_splits)
  from assms(2) out have "r' \<in> set (rows ?s3)" by simp
  then obtain r3 where r3: "r3 \<in> set (rows ?s2)" "cell_of r' ?c = cell_of r3 ?c"
    using convert_step_other[of "''Estimated Delivery Date''" ?c r' ?s2 td] by auto
  then obtain r2 where r2: "r2 \<in> set (rows ?s1)" "cell_of r3 ?c = cell_of r2 ?c"
    using convert_step_other[of "''PO Date''" ?c r3 ?s1 td] by auto
  then obtain r1 where r1: "r1 \<in> set (rows ?d2)" "cell_of r2 ?c = cell_of r1 ?c"
    using convert_step_other[of "''Delivery Date''" ?c r2 ?d2 td] by auto
  from r1(1) have "r1 \<in> set (rows df)" "\<not> str_contains ''Summary'' (cell_of r1 ?c)"
    "\<not> isna (cell_of r1 ?c)"
    by (simp_all add: dropna_def select_def)
  with r1 r2 r3 show ?thesis by auto
qed

text \<open>
  C3. Whenever the cleaning stage returns a frame, no row of that frame has a missing
  order identifier (the blank that an empty or null cell is read as, or \<open>NaT\<close>), and
  none has an order identifier that is a text with \<open>Summary\<close> somewhere inside it, in
  this exact spelling.
\<close>

theorem normalizer_order_identifier:
  assumes "normalizer to_datetime df = Inr out"
  shows "\<forall>r \<in> set (rows out).
           cell_of r ''Sales Order No'' \<noteq> Null \<and> cell_of r ''Sales Order No'' \<noteq> NaT \<and>
           (\<forall>s. cell_of r ''Sales Order No'' = Str s \<longrightarrow> \<not> sublist ''Summary'' s)"
proof
  fix r' assume "r' \<in> set (rows out)"
  from normalizer_rows[OF assms this] obtain r where
    r: "cell_of r' ''Sales Order No'' = cell_of r ''Sales Order No''"
       "\<not> str_contains ''Summary'' (cell_of r ''Sales Order No'')"
       "\<not> isna (cell_of r ''Sales Order No'')"
    by blast
  then show "cell_of r' ''Sales Order No'' \<noteq> Null \<and> cell_of r' ''Sales Order No'' \<noteq> NaT \<and>
           (\<forall>s. cell_of r' ''Sales Order No'' = Str s \<longrightarrow> \<not> sublist ''Summary'' s)"
    by (auto simp: isna_def)
qed

theorem normalizer_order_identifier_witness:
  "\<exists>out. normalizer (map ts_of) summary_sheet = Inr out \<and>
         map label (rows out) = [0, 2] \<and>
         list_all (\<lambda>r. cell_of r ''Sales Order No'' \<noteq> Null \<and>
                       cell_of r ''Sales Order No'' \<noteq> NaT \<and>
                       (\<forall>s. cell_of r ''Sales Order No'' = Str s \<longrightarrow> \<not> sublist ''Summary'' s))
                  (rows out)"
proof -
  have "\<not> isl (normalizer (map ts_of) summary_sheet)"
    by code_simp
  then obtain out where out: "normalizer (map ts_of) summary_sheet = Inr out"
    by (cases "normalizer (map ts_of) summary_sheet") auto
  have "map label (rows (projr (normalizer (map ts_of) summary_sheet))) = [0, 2]"
    by code_simp
  with out have "map label (rows out) = [0, 2]" by simp
  with out normalizer_order_identifier[OF out] show ?thesis
    by (auto simp: list_all_iff)
qed

text \<open>After the cleaning stage the three date columns hold timestamps and \<open>NaT\<close> only,
  which is what the date arithmetic of the figures relies on.\<close>

lemma convert_step_same:
  assumes "col \<in> set (columns d)"
    and "r' \<in> set (rows (if col \<in> set (columns d) then convert_column td col d else d))"
  shows "cell_of r' col = NaT \<or> (\<exists>n. cell_of r' col = Ts n)"
  using assms
  by (auto simp: convert_column_def Let_def cell_of_set_cell_same coerce_def
      split: option.splits)

lemma columns_convert_step:
  "columns (if col \<in> set (columns d) then convert_column td col d else d) = columns d"
  by (simp add: convert_column_def Let_def)

lemma normalizer_date_cells:
  assumes "normalizer td df = Inr out" and "c \<in> set date_columns"
    and "c \<in> set (columns df)" and "r' \<in> set (rows out)"
  shows "cell_of r' c = NaT \<or> (\<exists>n. cell_of r' c = Ts n)"
proof -
  let ?o = "''Sales Order No''"
  let ?d2 = "dropna ?o (select (\<lambda>r. \<not> str_contains ''Summary'' (cell_of r ?o)) df)"
  let ?s1 = "if ''Delivery Date'' \<in> set (columns ?d2)
             then convert_column td ''Delivery Date'' ?d2 else ?d2"
  let ?s2 = "if ''PO Date'' \<in> set (columns ?s1)
             then convert_column td ''PO Date'' ?s1 else ?s1"
  let ?s3 = "if ''Estimated Delivery Date'' \<in> set (columns ?s2)
             then convert_column td ''Estimated Delivery Date'' ?s2 else ?s2"
  from assms(1) have out: "out = ?s3"
    by (simp add: normalizer_def date_columns_def Let_def split: if_splits)
  have c2: "columns ?d2 = columns df"
    by (simp add: dropna_def)
  have "columns ?s1 = columns ?d2"
    by (rule columns_convert_step)
  also note c2
  finally have c1: "columns ?s1 = columns df" .
  have "columns ?s2 = columns ?s1"
    by (rule columns_convert_step)
  also note c1
  finally have c2': "columns ?s2 = columns df" .
  from assms(4) out have r3: "r' \<in> set (rows ?s3)" by simp
  from assms(2) consider "c = ''Delivery Date''" | "c = ''PO Date''"
    | "c = ''Estimated Delivery Date''"
    by (auto simp: date_columns_def)
  then show ?thesis
  proof cases
    case 1
    from r3 obtain r3 where a: "r3 \<in> set (rows ?s2)" "cell_of r' c = cell_of r3 c"
      using convert_step_other[of "''Estimated Delivery Date''" c r' ?s2 td] 1 by auto
    then obtain r2 where b: "r2 \<in> set (rows ?s1)" "cell_of r3 c = cell_of r2 c"
      using convert_step_other[of "''PO Date''" c r3 ?s1 td] 1 by auto
    have "c \<in> set (columns ?d2)" using assms(3) c2 by simp
    with b(1) 1 have "cell_of r2 c = NaT \<or> (\<exists>n. cell_of r2 c = Ts n)"
      using convert_step_same[of c ?d2 r2 td] by simp
    with a b show ?thesis by simp
  next
    case 2
    from r3 obtain r3 where a: "r3 \<in> set (rows ?s2)" "cell_of r' c = cell_of r3 c"
      using convert_step_other[of "''Estimated Delivery Date''" c r' ?s2 td] 2 by auto
    have "c \<in> set (columns ?s1)" using assms(3) c1 by simp
    with a(1) 2 have "cell_of r3 c = NaT \<or> (\<exists>n. cell_of r3 c = Ts n)"
      using convert_step_same[of c ?s1 r3 td] by simp
    with a show ?thesis by simp
  next
    case 3
    have "c \<in> set (columns ?s2)" using assms(3) c2' by simp
    with r3 3 show ?thesis
      using convert_step_same[of c ?s2 r' td] by simp
  qed
qed

subsection \<open>Required columns\<close>

lemma set_missing_columns:
  "set (missing_columns df) = set required_columns - set (columns df)"
  by (auto simp: missing_columns_def)

lemma missing_columns_nonempty:
  assumes "\<not> set required_columns \<subseteq> set (map strip (columns sheet))"
  shows "missing_columns (strip_columns sheet) \<noteq> []"
    and "missing_columns (strip_columns sheet)
           = filter (\<lambda>col. col \<notin> set (map strip (columns sheet))) required_columns"
proof -
  have "set (missing_columns (strip_columns sheet)) \<noteq> {}"
    using assms unfolding set_missing_columns by (auto simp: strip_columns_def)
  then show "missing_columns (strip_columns sheet) \<noteq> []" by auto
  show "missing_columns (strip_columns sheet)
           = filter (\<lambda>col. col \<notin> set (map strip (columns sheet))) required_columns"
    by (simp add: missing_columns_def strip_columns_def)
qed

text \<open>
  The report of line 31 carries exactly the required names that the stripped header
  lacks, all of them in one list. With lines 112-133 indented into the \<open>else\<close> branch,
  the run ends with this report: the outcome does not depend on the rows, the date
  parser, the filters or the threshold.
\<close>

lemma run_missing_columns:
  assumes "\<not> set required_columns \<subseteq> set (map strip (columns sheet))"
  shows "run ar to_datetime fs delay_threshold (Some sheet)
           = Missing_columns
               (filter (\<lambda>col. col \<notin> set (map strip (columns sheet))) required_columns) \<and>
         set (filter (\<lambda>col. col \<notin> set (map strip (columns sheet))) required_columns)
           = set required_columns - set (map strip (columns sheet))"
  using missing_columns_nonempty[OF assms]
  by (auto simp: run_def Let_def)

text \<open>
  As the lines stand, the run does not end with the report: after it the heading of line
  112 is shown and the guard of line 115 raises \<open>NameError\<close>, because \<open>filtered_df\<close> was
  never bound. No cleaning, filter or figure is computed on this path either.
\<close>

lemma page_as_written_missing_columns:
  assumes "\<not> set required_columns \<subseteq> set (map strip (columns sheet))"
  shows "page_as_written ar to_datetime fs delay_threshold (Some sheet)
           = [Missing_report
                (filter (\<lambda>col. col \<notin> set (map strip (columns sheet))) required_columns),
              Receipts_heading, Raise NameError]"
  using missing_columns_nonempty[OF assms]
  by (simp add: page_as_written_def upload_block_def lines_112_133_def Let_def)

lemma partial_sheet_missing:
  "\<not> set required_columns \<subseteq> set (map strip (columns partial_sheet))"
  "filter (\<lambda>col. col \<notin> set (map strip (columns partial_sheet))) required_columns
     = [''PO Date'', ''Quantity'']"
  by code_simp+

text \<open>
  C6, evaluated on the sheet \<open>partial_sheet\<close>, whose header lacks "PO Date" and
  "Quantity". The claim asks for the report of every missing name and for a halt. The
  report is made, with both names together; but as the lines stand the page goes on to
  line 112 and fails with \<open>NameError\<close> at line 115 instead of halting, and the file as
  given is refused by the parser before anything is reported. Only with lines 112-133
  indented into the \<open>else\<close> branch does the run end with the report.
\<close>

theorem missing_columns_as_written:
  "page_as_written int64_arith (map ts_of) acme_only 10 (Some partial_sheet)
     = [Missing_report [''PO Date'', ''Quantity''], Receipts_heading, Raise NameError] \<and>
   file_as_given int64_arith (map ts_of) acme_only 10 (Some partial_sheet)
     = [Raise IndentationError] \<and>
   run int64_arith (map ts_of) acme_only 10 (Some partial_sheet)
     = Missing_columns [''PO Date'', ''Quantity'']"
  using page_as_written_missing_columns[OF partial_sheet_missing(1),
      of int64_arith "map ts_of" acme_only 10]
    run_missing_columns[OF partial_sheet_missing(1), of int64_arith "map ts_of" acme_only 10]
    partial_sheet_missing(2)
  by (simp add: file_as_given_def)

subsection \<open>Shipment delay\<close>

lemma more_than_dt_days:
  "more_than (dt_days x y) n \<longleftrightarrow>
     (\<exists>e a. x = Ts e \<and> y = Ts a \<and> (e - a) div ns_per_day > n)"
  by (cases x; cases y) (simp_all add: more_than_def dt_days_def)

text \<open>
  C2. On a frame that has both date columns, the delay analysis returns the subset in
  which a row lies exactly when both its estimated and its actual delivery date are
  timestamps (parsed dates) and the estimated date minus the actual date, in whole days,
  is greater than the threshold; this holds for every integer threshold, those of the
  slider (0 to 90) among them. With threshold 10, a row whose difference is 15 days is in
  the subset and a row whose difference is 5 days is not.
\<close>

theorem delayed_shipments_iff:
  assumes "''Estimated Delivery Date'' \<in> set (columns fdf)"
    and "''Delivery Date'' \<in> set (columns fdf)"
  shows "\<exists>ds. delayed_shipments delay_threshold fdf = Inr ds \<and>
           (\<forall>r. r \<in> set (rows ds) \<longleftrightarrow>
                  r \<in> set (rows fdf) \<and>
                  (\<exists>e a. cell_of r ''Estimated Delivery Date'' = Ts e \<and>
                         cell_of r ''Delivery Date'' = Ts a \<and>
                         (e - a) div ns_per_day > delay_threshold)) \<and>
           (delay_threshold = 10 \<longrightarrow>
              (\<forall>r \<in> set (rows fdf).
                 (dt_days (cell_of r ''Estimated Delivery Date'') (cell_of r ''Delivery Date'')
                    = Some 15 \<longrightarrow> r \<in> set (rows ds)) \<and>
                 (dt_days (cell_of r ''Estimated Delivery Date'') (cell_of r ''Delivery Date'')
                    = Some 5 \<longrightarrow> r \<notin> set (rows ds))))"
proof -
  let ?ds = "select (\<lambda>r. more_than (dt_days (cell_of r ''Estimated Delivery Date'')
                                              (cell_of r ''Delivery Date'')) delay_threshold) fdf"
  have ret: "delayed_shipments delay_threshold fdf = Inr ?ds"
    using assms by (simp add: delayed_shipments_def)
  have iff: "\<forall>r. r \<in> set (rows ?ds) \<longleftrightarrow>
                  r \<in> set (rows fdf) \<and>
                  (\<exists>e a. cell_of r ''Estimated Delivery Date'' = Ts e \<and>
                         cell_of r ''Delivery Date'' = Ts a \<and>
                         (e - a) div ns_per_day > delay_threshold)"
    by (simp add: select_def more_than_dt_days)
  have sc: "delay_threshold = 10 \<longrightarrow>
              (\<forall>r \<in> set (rows fdf).
                 (dt_days (cell_of r ''Estimated Delivery Date'') (cell_of r ''Delivery Date'')
                    = Some 15 \<longrightarrow> r \<in> set (rows ?ds)) \<and>
                 (dt_days (cell_of r ''Estimated Delivery Date'') (cell_of r ''Delivery Date'')
                    = Some 5 \<longrightarrow> r \<notin> set (rows ?ds)))"
    by (simp add: select_def more_than_def)
  from ret iff sc show ?thesis by blast
qed

theorem delayed_shipments_iff_witness:
  "''Estimated Delivery Date'' \<in> set (columns delay_frame) \<and>
   ''Delivery Date'' \<in> set (columns delay_frame) \<and>
   dt_days (cell_of (line_15 0) ''Estimated Delivery Date'') (cell_of (line_15 0) ''Delivery Date'')
     = Some 15 \<and>
   dt_days (cell_of (line_5 1) ''Estimated Delivery Date'') (cell_of (line_5 1) ''Delivery Date'')
     = Some 5 \<and>
   (\<exists>ds. delayed_shipments 10 delay_frame = Inr ds \<and>
         line_15 0 \<in> set (rows ds) \<and> line_5 1 \<notin> set (rows ds))"
proof -
  have c: "''Estimated Delivery Date'' \<in> set (columns delay_frame)"
    "''Delivery Date'' \<in> set (columns delay_frame)"
    by (simp_all add: delay_frame_def sheet_columns_def)
  have d: "dt_days (cell_of (line_15 0) ''Estimated Delivery Date'')
                   (cell_of (line_15 0) ''Delivery Date'') = Some 15"
    "dt_days (cell_of (line_5 1) ''Estimated Delivery Date'')
             (cell_of (line_5 1) ''Delivery Date'') = Some 5"
    by code_simp+
  have m: "line_15 0 \<in> set (rows delay_frame)" "line_5 1 \<in> set (rows delay_frame)"
    by (simp_all add: delay_frame_def)
  from delayed_shipments_iff[OF c, of 10] c d m show ?thesis
    by blast
qed

text \<open>
  C8. On every frame that has the two date columns (as every filtered frame has), the
  delay analysis returns its subset, and the warning of line 82 is raised exactly when
  that subset has more than 5 rows; with exactly 5 rows it is not raised. The warning is
  decided at line 81, before any later figure is computed.
\<close>

theorem critical_alert_iff:
  assumes "''Estimated Delivery Date'' \<in> set (columns fdf)"
    and "''Delivery Date'' \<in> set (columns fdf)"
  shows "\<exists>ds. delayed_shipments delay_threshold fdf = Inr ds \<and>
              (critical_alert ds \<longleftrightarrow> 5 < length (rows ds)) \<and>
              (length (rows ds) = 5 \<longrightarrow> \<not> critical_alert ds)"
  using assms by (simp add: delayed_shipments_def critical_alert_def)

theorem critical_alert_iff_witness:
  "''Estimated Delivery Date'' \<in> set (columns six_frame) \<and>
   ''Delivery Date'' \<in> set (columns six_frame) \<and>
   ''Estimated Delivery Date'' \<in> set (columns five_frame) \<and>
   ''Delivery Date'' \<in> set (columns five_frame) \<and>
   (\<exists>ds. delayed_shipments 10 six_frame = Inr ds \<and> length (rows ds) = 6 \<and>
         critical_alert ds) \<and>
   (\<exists>ds. delayed_shipments 10 five_frame = Inr ds \<and> length (rows ds) = 5 \<and>
         \<not> critical_alert ds)"
proof -
  have c6: "''Estimated Delivery Date'' \<in> set (columns six_frame)"
    "''Delivery Date'' \<in> set (columns six_frame)"
    by (simp_all add: six_frame_def sheet_columns_def)
  have c5: "''Estimated Delivery Date'' \<in> set (columns five_frame)"
    "''Delivery Date'' \<in> set (columns five_frame)"
    by (simp_all add: five_frame_def sheet_columns_def)
  from critical_alert_iff[OF c6, of 10] obtain d6 where
    d6: "delayed_shipments 10 six_frame = Inr d6"
        "critical_alert d6 \<longleftrightarrow> 5 < length (rows d6)"
    by blast
  have "length (rows (projr (delayed_shipments 10 six_frame))) = 6" by code_simp
  with d6 have l6: "length (rows d6) = 6" by simp
  with d6 have a6: "critical_alert d6" by simp
  from critical_alert_iff[OF c5, of 10] obtain d5 where
    d5: "delayed_shipments 10 five_frame = Inr d5"
        "length (rows d5) = 5 \<longrightarrow> \<not> critical_alert d5"
    by blast
  have "length (rows (projr (delayed_shipments 10 five_frame))) = 5" by code_simp
  with d5 have l5: "length (rows d5) = 5" by simp
  with d5 have a5: "\<not> critical_alert d5" by simp
  have e6: "\<exists>ds. delayed_shipments 10 six_frame = Inr ds \<and> length (rows ds) = 6 \<and>
         critical_alert ds"
    using d6(1) l6 a6 by blast
  have e5: "\<exists>ds. delayed_shipments 10 five_frame = Inr ds \<and> length (rows ds) = 5 \<and>
         \<not> critical_alert ds"
    using d5(1) l5 a5 by blast
  show ?thesis
    by (intro conjI c6 c5 e6 e5)
qed

subsection \<open>Aggregation per group\<close>

lemma collect_Inr:
  "collect f xs = Inr ys \<Longrightarrow> list_all2 (\<lambda>x y. f x = Inr y) xs ys"
  by (induction xs arbitrary: ys) (auto split: sum.splits)

lemma collect_keys:
  assumes "collect f xs = Inr ys" and "\<And>x y. f x = Inr y \<Longrightarrow> g y = x"
  shows "map g ys = xs"
proof -
  from collect_Inr[OF assms(1)] have "list_all2 (\<lambda>x y. g y = x) xs ys"
    by (rule list_all2_mono) (simp add: assms(2))
  then show ?thesis
    by (induction rule: list_all2_induct) simp_all
qed

lemma collect_member:
  assumes "collect f xs = Inr ys" and "y \<in> set ys"
  shows "\<exists>x \<in> set xs. f x = Inr y"
  using collect_Inr[OF assms(1)] assms(2)
  by (induction rule: list_all2_induct) auto

lemma distinct_group_keys: "distinct (group_keys c df)"
  by (simp add: group_keys_def)

subsection \<open>Supplier performance\<close>

lemma agg_supplier_fields:
  assumes "agg_supplier fdf k = Inr a"
  shows "supplier_name a = k \<and>
         total_orders a = nunique (column_values ''PO Number'' (group_rows ''Supplier'' k fdf)) \<and>
         on_time_deliveries a = length (filter (on_time fdf) (group_rows ''Supplier'' k fdf))"
  using assms by (auto simp: agg_supplier_def Let_def split: sum.splits)

lemma add_rate_fields:
  "supplier_name (add_rate a) = supplier_name a \<and>
   total_orders (add_rate a) = total_orders a \<and>
   on_time_deliveries (add_rate a) = on_time_deliveries a \<and>
   on_time_delivery_rate (add_rate a)
     = times_100 (true_div (on_time_deliveries a) (total_orders a))"
  by (simp add: add_rate_def supplier_kpi.extend_def)

text \<open>
  C1, as the script computes it. For every supplier row, \<open>total_orders\<close> is the number of
  distinct PO numbers of the supplier's lines and \<open>on_time_deliveries\<close> the number of its
  lines delivered by the estimated date. When \<open>total_orders\<close> is positive the rate is
  \<open>on_time_deliveries / total_orders \<times> 100\<close> and is not negative; it is at most 100 when
  \<open>on_time_deliveries \<le> total_orders\<close>. When \<open>total_orders\<close> is 0 no fault is raised and
  the rate is \<open>NaN\<close> (no line on time) or \<open>inf\<close> (some line on time).
\<close>

theorem supplier_performance_rate:
  assumes "supplier_performance fdf = Inr perf"
  shows "\<forall>k \<in> set perf.
           total_orders k
             = nunique (column_values ''PO Number''
                          (group_rows ''Supplier'' (supplier_name k) fdf)) \<and>
           on_time_deliveries k
             = length (filter (on_time fdf) (group_rows ''Supplier'' (supplier_name k) fdf)) \<and>
           (0 < total_orders k \<longrightarrow>
              on_time_delivery_rate k
                = Fin (of_nat (on_time_deliveries k) / of_nat (total_orders k) * 100) \<and>
              (0::rat) \<le> of_nat (on_time_deliveries k) / of_nat (total_orders k) * 100 \<and>
              (on_time_deliveries k \<le> total_orders k \<longrightarrow>
                 of_nat (on_time_deliveries k) / of_nat (total_orders k) * 100 \<le> (100::rat))) \<and>
           (total_orders k = 0 \<longrightarrow>
              on_time_delivery_rate k = (if on_time_deliveries k = 0 then NaN else PosInf))"
proof
  fix k assume k: "k \<in> set perf"
  from assms obtain ks where
    ks: "collect (agg_supplier fdf) (group_keys ''Supplier'' fdf) = Inr ks" and
    perf: "perf = map add_rate ks"
    by (auto simp: supplier_performance_def split: if_splits sum.splits)
  from k perf obtain a where a: "a \<in> set ks" "k = add_rate a" by auto
  from collect_member[OF ks a(1)] obtain key where key: "agg_supplier fdf key = Inr a"
    by blast
  note f = agg_supplier_fields[OF key] add_rate_fields[of a]
  have fields:
    "total_orders k
       = nunique (column_values ''PO Number'' (group_rows ''Supplier'' (supplier_name k) fdf))"
    "on_time_deliveries k
       = length (filter (on_time fdf) (group_rows ''Supplier'' (supplier_name k) fdf))"
    using f a(2) by simp_all
  have rate: "on_time_delivery_rate k
                = times_100 (true_div (on_time_deliveries k) (total_orders k))"
    using f a(2) by simp
  have pos: "on_time_delivery_rate k
                = Fin (of_nat (on_time_deliveries k) / of_nat (total_orders k) * 100) \<and>
              (0::rat) \<le> of_nat (on_time_deliveries k) / of_nat (total_orders k) * 100 \<and>
              (on_time_deliveries k \<le> total_orders k \<longrightarrow>
                 of_nat (on_time_deliveries k) / of_nat (total_orders k) * 100 \<le> (100::rat))"
    if "0 < total_orders k"
  proof -
    have b: "(0::rat) < of_nat (total_orders k)"
      using that by simp
    have le: "of_nat (on_time_deliveries k) / of_nat (total_orders k) * 100 \<le> (100::rat)"
      if "on_time_deliveries k \<le> total_orders k"
    proof -
      from that have "(of_nat (on_time_deliveries k) :: rat) \<le> of_nat (total_orders k)"
        by simp
      with b have "(of_nat (on_time_deliveries k) :: rat) / of_nat (total_orders k) \<le> 1"
        by (simp add: divide_le_eq_1)
      then have "of_nat (on_time_deliveries k) / of_nat (total_orders k) * 100 \<le> (1::rat) * 100"
        by (rule mult_right_mono) simp
      then show ?thesis by simp
    qed
    have "on_time_delivery_rate k
            = Fin (of_nat (on_time_deliveries k) / of_nat (total_orders k) * 100)"
      using that rate by (simp add: true_div_def)
    moreover have "(0::rat) \<le> of_nat (on_time_deliveries k) / of_nat (total_orders k) * 100"
      by simp
    ultimately show ?thesis using le by blast
  qed
  have zero: "on_time_delivery_rate k = (if on_time_deliveries k = 0 then NaN else PosInf)"
    if "total_orders k = 0"
    using that rate by (simp add: true_div_def)
  from fields pos zero
  show "total_orders k
             = nunique (column_values ''PO Number''
                          (group_rows ''Supplier'' (supplier_name k) fdf)) \<and>
           on_time_deliveries k
             = length (filter (on_time fdf) (group_rows ''Supplier'' (supplier_name k) fdf)) \<and>
           (0 < total_orders k \<longrightarrow>
              on_time_delivery_rate k
                = Fin (of_nat (on_time_deliveries k) / of_nat (total_orders k) * 100) \<and>
              (0::rat) \<le> of_nat (on_time_deliveries k) / of_nat (total_orders k) * 100 \<and>
              (on_time_deliveries k \<le> total_orders k \<longrightarrow>
                 of_nat (on_time_deliveries k) / of_nat (total_orders k) * 100 \<le> (100::rat))) \<and>
           (total_orders k = 0 \<longrightarrow>
              on_time_delivery_rate k = (if on_time_deliveries k = 0 then NaN else PosInf))"
    by blast
qed

theorem supplier_performance_rate_witness:
  "\<exists>perf. supplier_performance x1_frame = Inr perf \<and>
          map supplier_name perf = [Str ''Acme'', Str ''Bolt''] \<and>
          list_all (\<lambda>k. 0 < total_orders k \<and> on_time_deliveries k \<le> total_orders k \<and>
                        on_time_delivery_rate k
                          = Fin (of_nat (on_time_deliveries k) / of_nat (total_orders k) * 100) \<and>
                        of_nat (on_time_deliveries k) / of_nat (total_orders k) * 100 \<le> (100::rat))
                   (tl perf) \<and>
          list_all (\<lambda>k. total_orders k = 0 \<and>
                        on_time_delivery_rate k
                          = (if on_time_deliveries k = 0 then NaN else PosInf))
                   (tl (projr (supplier_performance acme_frame)))"
proof -
  have "\<not> isl (supplier_performance x1_frame)" by code_simp
  then obtain perf where perf: "supplier_performance x1_frame = Inr perf"
    by (cases "supplier_performance x1_frame") auto
  have "map supplier_name (projr (supplier_performance x1_frame)) = [Str ''Acme'', Str ''Bolt'']"
    by code_simp
  with perf have names: "map supplier_name perf = [Str ''Acme'', Str ''Bolt'']" by simp
  have "list_all (\<lambda>k. 0 < total_orders k \<and> on_time_deliveries k \<le> total_orders k)
          (tl (projr (supplier_performance x1_frame)))"
    by code_simp
  with perf have ok: "list_all (\<lambda>k. 0 < total_orders k \<and> on_time_deliveries k \<le> total_orders k)
                        (tl perf)"
    by simp
  have sub: "set (tl perf) \<subseteq> set perf"
    by (cases perf) auto
  have one: "list_all (\<lambda>k. 0 < total_orders k \<and> on_time_deliveries k \<le> total_orders k \<and>
                        on_time_delivery_rate k
                          = Fin (of_nat (on_time_deliveries k) / of_nat (total_orders k) * 100) \<and>
                        of_nat (on_time_deliveries k) / of_nat (total_orders k) * 100 \<le> (100::rat))
                   (tl perf)"
    using supplier_performance_rate[OF perf] ok sub
    unfolding list_all_iff by blast
  have "\<not> isl (supplier_performance acme_frame)" by code_simp
  then obtain perf' where perf': "supplier_performance acme_frame = Inr perf'"
    by (cases "supplier_performance acme_frame") auto
  have "list_all (\<lambda>k. total_orders k = 0) (tl (projr (supplier_performance acme_frame)))"
    by code_simp
  with perf' have z: "list_all (\<lambda>k. total_orders k = 0) (tl perf')"
    by simp
  have sub': "set (tl perf') \<subseteq> set perf'"
    by (cases perf') auto
  have "list_all (\<lambda>k. total_orders k = 0 \<and>
                      on_time_delivery_rate k
                        = (if on_time_deliveries k = 0 then NaN else PosInf)) (tl perf')"
    using supplier_performance_rate[OF perf'] z sub'
    unfolding list_all_iff by blast
  with perf' have two: "list_all (\<lambda>k. total_orders k = 0 \<and>
                      on_time_delivery_rate k
                        = (if on_time_deliveries k = 0 then NaN else PosInf))
                          (tl (projr (supplier_performance acme_frame)))"
    by simp
  show ?thesis
    by (rule exI[of _ perf]) (intro conjI perf names one two)
qed

text \<open>
  C1, as the specification states it, fails on the sheet \<open>acme_frame\<close>: Acme has two
  lines on time under one PO number, so its rate is 200; Bolt and Core have no PO
  number, so their \<open>total_orders\<close> is 0 and their rates are \<open>inf\<close> and \<open>NaN\<close>, not 0.
\<close>

theorem supplier_performance_rate_counterexample:
  "performance (rendered (run int64_arith (map ts_of) empty_spec 30 (Some acme_frame)))
     = [\<lparr>supplier_name = Str ''Acme'', total_orders = 1, total_procurement = 300,
          on_time_deliveries = 2, delayed_deliveries = 0, on_time_delivery_rate = Fin 200\<rparr>,
        \<lparr>supplier_name = Str ''Bolt'', total_orders = 0, total_procurement = 50,
          on_time_deliveries = 1, delayed_deliveries = 0, on_time_delivery_rate = PosInf\<rparr>,
        \<lparr>supplier_name = Str ''Core'', total_orders = 0, total_procurement = 70,
          on_time_deliveries = 0, delayed_deliveries = 0, on_time_delivery_rate = NaN\<rparr>] \<and>
   \<not> (200::rat) \<le> 100 \<and> PosInf \<noteq> Fin 0 \<and> NaN \<noteq> Fin 0"
  by code_simp

subsection \<open>Quantity against receipts\<close>

lemma agg_po_fields:
  assumes "agg_po ar fdf k = Inr p"
  shows "po_number p = k \<and>
         (\<exists>qs rs.
            numbers (column_values ''Quantity'' (group_rows ''PO Number'' k fdf)) = Inr qs \<and>
            numbers (column_values ''Received Quantity'' (group_rows ''PO Number'' k fdf)) = Inr rs \<and>
            total_quantity p = column_sum ar ''Quantity'' qs \<and>
            total_received p = column_sum ar ''Received Quantity'' rs)"
  using assms by (auto simp: agg_po_def Let_def split: sum.splits)

lemma add_difference_fields:
  "po_number (add_difference ar p) = po_number p \<and>
   total_quantity (add_difference ar p) = total_quantity p \<and>
   total_received (add_difference ar p) = total_received p \<and>
   difference (add_difference ar p) = subtract ar (total_quantity p) (total_received p)"
  by (simp add: add_difference_def po_totals.extend_def)

lemma x1_frame_reconciled:
  assumes "column_sum ar ''Quantity'' [10, 5] = Fin 15"
    and "column_sum ar ''Received Quantity'' [10, 3] = Fin 13"
    and "column_sum ar ''Quantity'' [4] = Fin 4"
    and "column_sum ar ''Received Quantity'' [4] = Fin 4"
    and "subtract ar (Fin 15) (Fin 13) = Fin 2"
    and "subtract ar (Fin 4) (Fin 4) = Fin 0"
  shows "reconcile ar x1_frame
     = Inr (Reconciled
             [\<lparr>po_number = Str ''X1'', total_quantity = Fin 15, total_received = Fin 13,
               difference = Fin 2\<rparr>,
              \<lparr>po_number = Str ''X2'', total_quantity = Fin 4, total_received = Fin 4,
               difference = Fin 0\<rparr>]
             [\<lparr>po_number = Str ''X1'', total_quantity = Fin 15, total_received = Fin 13,
               difference = Fin 2\<rparr>])"
proof -
  have k: "group_keys ''PO Number'' x1_frame = [Str ''X1'', Str ''X2'']"
    by code_simp
  have q1: "numbers (column_values ''Quantity'' (group_rows ''PO Number'' (Str ''X1'') x1_frame))
              = Inr [10, 5]"
    by code_simp
  have r1: "numbers (column_values ''Received Quantity''
                       (group_rows ''PO Number'' (Str ''X1'') x1_frame)) = Inr [10, 3]"
    by code_simp
  have q2: "numbers (column_values ''Quantity'' (group_rows ''PO Number'' (Str ''X2'') x1_frame))
              = Inr [4]"
    by code_simp
  have r2: "numbers (column_values ''Received Quantity''
                       (group_rows ''PO Number'' (Str ''X2'') x1_frame)) = Inr [4]"
    by code_simp
  have a1: "agg_po ar x1_frame (Str ''X1'')
              = Inr \<lparr>po_number = Str ''X1'', total_quantity = Fin 15, total_received = Fin 13\<rparr>"
    by (simp add: agg_po_def Let_def q1 r1 assms)
  have a2: "agg_po ar x1_frame (Str ''X2'')
              = Inr \<lparr>po_number = Str ''X2'', total_quantity = Fin 4, total_received = Fin 4\<rparr>"
    by (simp add: agg_po_def Let_def q2 r2 assms)
  have c: "''PO Number'' \<in> set (columns x1_frame)" "''Quantity'' \<in> set (columns x1_frame)"
    "''Received Quantity'' \<in> set (columns x1_frame)"
    by (simp_all add: x1_frame_def sheet_columns_def)
  show ?thesis
    by (simp add: reconcile_def c k a1 a2 Let_def add_difference_def po_totals.extend_def assms)
qed

text \<open>
  C7. Whenever the reconciliation returns its two views, every row of the full view
  holds the totals that the columns' arithmetic forms of the ordered and of the received
  quantities of the lines of its PO number, and its difference is the first total minus
  the second in that arithmetic; the full view has one row per PO number that occurs,
  and a row is in the mismatches view exactly when it is in the full view with a
  difference other than 0. This holds for every arithmetic of the columns. In the sheet
  \<open>x1_frame\<close>, PO X1 with its lines (10, 10) and (5, 3) gets the row 15, 13, 2 and is
  among the mismatches, in \<open>int64\<close> arithmetic and in every arithmetic that is exact on
  these six small operations (as \<open>float64\<close> is).
\<close>

theorem reconcile_difference:
  "(reconcile ar fdf = Inr (Reconciled rvq mm) \<longrightarrow>
      (\<forall>p \<in> set rvq.
         (\<exists>qs rs.
            numbers (column_values ''Quantity'' (group_rows ''PO Number'' (po_number p) fdf))
              = Inr qs \<and>
            numbers (column_values ''Received Quantity''
                       (group_rows ''PO Number'' (po_number p) fdf))
              = Inr rs \<and>
            total_quantity p = column_sum ar ''Quantity'' qs \<and>
            total_received p = column_sum ar ''Received Quantity'' rs) \<and>
         difference p = subtract ar (total_quantity p) (total_received p)) \<and>
      map po_number rvq = group_keys ''PO Number'' fdf \<and>
      distinct (map po_number rvq) \<and>
      (\<forall>p. p \<in> set mm \<longleftrightarrow> p \<in> set rvq \<and> difference p \<noteq> Fin 0)) \<and>
   (column_sum ar ''Quantity'' [10, 5] = Fin 15 \<and>
    column_sum ar ''Received Quantity'' [10, 3] = Fin 13 \<and>
    column_sum ar ''Quantity'' [4] = Fin 4 \<and>
    column_sum ar ''Received Quantity'' [4] = Fin 4 \<and>
    subtract ar (Fin 15) (Fin 13) = Fin 2 \<and>
    subtract ar (Fin 4) (Fin 4) = Fin 0 \<longrightarrow>
    reconcile ar x1_frame
      = Inr (Reconciled
              [\<lparr>po_number = Str ''X1'', total_quantity = Fin 15, total_received = Fin 13,
                difference = Fin 2\<rparr>,
               \<lparr>po_number = Str ''X2'', total_quantity = Fin 4, total_received = Fin 4,
                difference = Fin 0\<rparr>]
              [\<lparr>po_number = Str ''X1'', total_quantity = Fin 15, total_received = Fin 13,
                difference = Fin 2\<rparr>])) \<and>
   reconcile int64_arith x1_frame
     = Inr (Reconciled
             [\<lparr>po_number = Str ''X1'', total_quantity = Fin 15, total_received = Fin 13,
               difference = Fin 2\<rparr>,
              \<lparr>po_number = Str ''X2'', total_quantity = Fin 4, total_received = Fin 4,
               difference = Fin 0\<rparr>]
             [\<lparr>po_number = Str ''X1'', total_quantity = Fin 15, total_received = Fin 13,
               difference = Fin 2\<rparr>])"
proof -
  have general: "(\<forall>p \<in> set rvq.
         (\<exists>qs rs.
            numbers (column_values ''Quantity'' (group_rows ''PO Number'' (po_number p) fdf))
              = Inr qs \<and>
            numbers (column_values ''Received Quantity''
                       (group_rows ''PO Number'' (po_number p) fdf))
              = Inr rs \<and>
            total_quantity p = column_sum ar ''Quantity'' qs \<and>
            total_received p = column_sum ar ''Received Quantity'' rs) \<and>
         difference p = subtract ar (total_quantity p) (total_received p)) \<and>
      map po_number rvq = group_keys ''PO Number'' fdf \<and>
      distinct (map po_number rvq) \<and>
      (\<forall>p. p \<in> set mm \<longleftrightarrow> p \<in> set rvq \<and> difference p \<noteq> Fin 0)"
    if r: "reconcile ar fdf = Inr (Reconciled rvq mm)"
  proof -
    from r obtain ps where
      ps: "collect (agg_po ar fdf) (group_keys ''PO Number'' fdf) = Inr ps" and
      rvq: "rvq = map (add_difference ar) ps" and
      mm: "mm = filter (\<lambda>p. difference p \<noteq> Fin 0) rvq"
      by (auto simp: reconcile_def Let_def split: if_splits sum.splits)
    have lines:
      "(\<exists>qs rs.
            numbers (column_values ''Quantity'' (group_rows ''PO Number'' (po_number p) fdf))
              = Inr qs \<and>
            numbers (column_values ''Received Quantity''
                       (group_rows ''PO Number'' (po_number p) fdf))
              = Inr rs \<and>
            total_quantity p = column_sum ar ''Quantity'' qs \<and>
            total_received p = column_sum ar ''Received Quantity'' rs) \<and>
         difference p = subtract ar (total_quantity p) (total_received p)"
      if "p \<in> set rvq" for p
    proof -
      from that rvq obtain q where q: "q \<in> set ps" "p = add_difference ar q" by auto
      from collect_member[OF ps q(1)] obtain k where "agg_po ar fdf k = Inr q" by blast
      from agg_po_fields[OF this] add_difference_fields[of ar q] q(2) show ?thesis by simp
    qed
    have "map po_totals.po_number ps = group_keys ''PO Number'' fdf"
      using ps by (rule collect_keys) (simp add: agg_po_fields)
    then have keys: "map po_number rvq = group_keys ''PO Number'' fdf"
      by (simp add: rvq add_difference_fields comp_def)
    then have "distinct (map po_number rvq)"
      by (simp add: distinct_group_keys)
    with lines keys mm show ?thesis by auto
  qed
  have i: "reconcile int64_arith x1_frame
     = Inr (Reconciled
             [\<lparr>po_number = Str ''X1'', total_quantity = Fin 15, total_received = Fin 13,
               difference = Fin 2\<rparr>,
              \<lparr>po_number = Str ''X2'', total_quantity = Fin 4, total_received = Fin 4,
               difference = Fin 0\<rparr>]
             [\<lparr>po_number = Str ''X1'', total_quantity = Fin 15, total_received = Fin 13,
               difference = Fin 2\<rparr>])"
    by code_simp
  from general x1_frame_reconciled[of ar] i show ?thesis by blast
qed

theorem reconcile_difference_witness:
  "column_sum int64_arith ''Quantity'' [10, 5] = Fin 15 \<and>
   column_sum int64_arith ''Received Quantity'' [10, 3] = Fin 13 \<and>
   column_sum int64_arith ''Quantity'' [4] = Fin 4 \<and>
   column_sum int64_arith ''Received Quantity'' [4] = Fin 4 \<and>
   subtract int64_arith (Fin 15) (Fin 13) = Fin 2 \<and>
   subtract int64_arith (Fin 4) (Fin 4) = Fin 0 \<and>
   reconcile int64_arith x1_frame
     = Inr (Reconciled
             [\<lparr>po_number = Str ''X1'', total_quantity = Fin 15, total_received = Fin 13,
               difference = Fin 2\<rparr>,
              \<lparr>po_number = Str ''X2'', total_quantity = Fin 4, total_received = Fin 4,
               difference = Fin 0\<rparr>]
             [\<lparr>po_number = Str ''X1'', total_quantity = Fin 15, total_received = Fin 13,
               difference = Fin 2\<rparr>]) \<and>
   group_keys ''PO Number'' x1_frame = [Str ''X1'', Str ''X2''] \<and>
   subtract int64_arith (column_sum int64_arith ''Quantity'' [10, 5])
                        (column_sum int64_arith ''Received Quantity'' [10, 3]) = Fin 2"
proof -
  have h: "column_sum int64_arith ''Quantity'' [10, 5] = Fin 15"
    "column_sum int64_arith ''Received Quantity'' [10, 3] = Fin 13"
    "column_sum int64_arith ''Quantity'' [4] = Fin 4"
    "column_sum int64_arith ''Received Quantity'' [4] = Fin 4"
    "subtract int64_arith (Fin 15) (Fin 13) = Fin 2"
    "subtract int64_arith (Fin 4) (Fin 4) = Fin 0"
    by code_simp+
  note t = reconcile_difference[of int64_arith x1_frame
      "[\<lparr>po_number = Str ''X1'', total_quantity = Fin 15, total_received = Fin 13,
         difference = Fin 2\<rparr>,
        \<lparr>po_number = Str ''X2'', total_quantity = Fin 4, total_received = Fin 4,
         difference = Fin 0\<rparr>]"
      "[\<lparr>po_number = Str ''X1'', total_quantity = Fin 15, total_received = Fin 13,
         difference = Fin 2\<rparr>]"]
  from t have r: "reconcile int64_arith x1_frame
     = Inr (Reconciled
             [\<lparr>po_number = Str ''X1'', total_quantity = Fin 15, total_received = Fin 13,
               difference = Fin 2\<rparr>,
              \<lparr>po_number = Str ''X2'', total_quantity = Fin 4, total_received = Fin 4,
               difference = Fin 0\<rparr>]
             [\<lparr>po_number = Str ''X1'', total_quantity = Fin 15, total_received = Fin 13,
               difference = Fin 2\<rparr>])"
    by (elim conjE)
  from t r have k: "group_keys ''PO Number'' x1_frame = [Str ''X1'', Str ''X2'']"
    by simp
  have d: "subtract int64_arith (column_sum int64_arith ''Quantity'' [10, 5])
                        (column_sum int64_arith ''Received Quantity'' [10, 3]) = Fin 2"
    using h by simp
  show ?thesis
    by (intro conjI h r k d)
qed

subsection \<open>Figures that do not read the quantity columns\<close>

text \<open>The delay analysis, the supplier table, the customer ranking and the summary read
  neither "Quantity" nor "Received Quantity": on a frame without one of these columns
  they give what they give on the frame with it.\<close>

lemma find_map_rows: "find P (map f xs) = map_option f (find (\<lambda>x. P (f x)) xs)"
  by (induction xs) simp_all

lemma cell_of_drop_cell: "c' \<noteq> c \<Longrightarrow> cell_of (drop_cell c r) c' = cell_of r c'"
  by (simp add: cell_of_def drop_cell_def map_of_filter_other)

lemma label_drop_cell [simp]: "label (drop_cell c r) = label r"
  by (simp add: drop_cell_def)

lemma column_values_drop:
  "c' \<noteq> c \<Longrightarrow> column_values c' (map (drop_cell c) rs) = column_values c' rs"
  by (simp add: column_values_def cell_of_drop_cell)

lemma group_keys_without:
  "c' \<noteq> c \<Longrightarrow> group_keys c' (without_column c df) = group_keys c' df"
  by (simp add: group_keys_def without_column_def column_values_drop)

lemma group_rows_without:
  "c' \<noteq> c \<Longrightarrow>
     group_rows c' k (without_column c df) = map (drop_cell c) (group_rows c' k df)"
  by (simp add: group_rows_def without_column_def filter_map comp_def cell_of_drop_cell)

lemma loc_without:
  "loc (without_column c df) i = map_option (drop_cell c) (loc df i)"
  by (simp add: loc_def without_column_def find_map_rows)

lemma on_time_without:
  assumes "c \<noteq> ''Delivery Date''" "c \<noteq> ''Estimated Delivery Date''"
  shows "on_time (without_column c df) \<circ> drop_cell c = on_time df"
  using assms
  by (intro ext) (simp add: on_time_def loc_without cell_of_drop_cell split: option.splits)

lemma late_without:
  assumes "c \<noteq> ''Delivery Date''" "c \<noteq> ''Estimated Delivery Date''"
  shows "late (without_column c df) \<circ> drop_cell c = late df"
  using assms
  by (intro ext) (simp add: late_def loc_without cell_of_drop_cell split: option.splits)

lemma columns_without:
  "c' \<noteq> c \<Longrightarrow> c' \<in> set (columns (without_column c df)) \<longleftrightarrow> c' \<in> set (columns df)"
  by (simp add: without_column_def)

lemma quantity_other:
  assumes "c = ''Quantity'' \<or> c = ''Received Quantity''"
  shows "''Sales Order No'' \<noteq> c" "''Customer Name'' \<noteq> c" "''Supplier'' \<noteq> c"
    "''PO Number'' \<noteq> c" "''PO Total Amount (EGP)'' \<noteq> c" "''Delivery Date'' \<noteq> c"
    "''Estimated Delivery Date'' \<noteq> c" "c \<noteq> ''Delivery Date''"
    "c \<noteq> ''Estimated Delivery Date''"
  using assms by auto

lemma agg_supplier_without:
  assumes "c = ''Quantity'' \<or> c = ''Received Quantity''"
  shows "agg_supplier (without_column c df) k = agg_supplier df k"
proof -
  note q = quantity_other[OF assms]
  show ?thesis
    by (simp add: agg_supplier_def Let_def group_rows_without column_values_drop q
        on_time_without late_without cong: sum.case_cong)
qed

lemma supplier_performance_without:
  assumes "c = ''Quantity'' \<or> c = ''Received Quantity''"
  shows "supplier_performance (without_column c df) = supplier_performance df"
proof -
  note q = quantity_other[OF assms]
  have "agg_supplier (without_column c df) = agg_supplier df"
    using agg_supplier_without[OF assms] by (intro ext)
  then show ?thesis
    by (simp add: supplier_performance_def group_keys_without columns_without q)
qed

lemma top_customers_without:
  assumes "c = ''Quantity'' \<or> c = ''Received Quantity''"
  shows "top_customers (without_column c df) = top_customers df"
proof -
  note q = quantity_other[OF assms]
  have "customer_total (without_column c df) = customer_total df"
    by (intro ext)
       (simp add: customer_total_def group_rows_without column_values_drop q
          cong: sum.case_cong)
  then show ?thesis
    by (simp add: top_customers_def group_keys_without columns_without q)
qed

lemma summary_metrics_without:
  assumes "c = ''Quantity'' \<or> c = ''Received Quantity''"
  shows "summary_metrics (without_column c df) = summary_metrics df"
proof -
  note q = quantity_other[OF assms]
  have r: "rows (without_column c df) = map (drop_cell c) (rows df)"
    by (simp add: without_column_def)
  have g: "(\<lambda>r. ts_gt (cell_of r ''Delivery Date'') (cell_of r ''Estimated Delivery Date''))
             \<circ> drop_cell c
           = (\<lambda>r. ts_gt (cell_of r ''Delivery Date'') (cell_of r ''Estimated Delivery Date''))"
    by (intro ext) (simp add: cell_of_drop_cell q)
  show ?thesis
    by (simp add: summary_metrics_def columns_without q r column_values_drop g
        cong: sum.case_cong)
qed

lemma delayed_shipments_without:
  assumes "c = ''Quantity'' \<or> c = ''Received Quantity''"
  shows "delayed_shipments n (without_column c df)
           = map_sum id (without_column c) (delayed_shipments n df)"
proof -
  note q = quantity_other[OF assms]
  show ?thesis
    by (simp add: delayed_shipments_def columns_without q)
       (simp add: without_column_def select_def filter_map comp_def cell_of_drop_cell q)
qed

lemma metrics_Inl:
  assumes "metrics ar n fdf = Inl e"
  shows "delayed_shipments n fdf = Inl e \<or> supplier_performance fdf = Inl e \<or>
         top_customers fdf = Inl e \<or> reconcile ar fdf = Inl e \<or> summary_metrics fdf = Inl e"
proof (cases "delayed_shipments n fdf")
  case Inl
  with assms show ?thesis by (simp add: metrics_def)
next
  case ds: Inr
  show ?thesis
  proof (cases "supplier_performance fdf")
    case Inl
    with assms ds show ?thesis by (simp add: metrics_def)
  next
    case perf: Inr
    show ?thesis
    proof (cases "top_customers fdf")
      case Inl
      with assms ds perf show ?thesis by (simp add: metrics_def)
    next
      case tc: Inr
      show ?thesis
      proof (cases "reconcile ar fdf")
        case Inl
        with assms ds perf tc show ?thesis by (simp add: metrics_def)
      next
        case rc: Inr
        show ?thesis
        proof (cases "summary_metrics fdf")
          case Inl
          with assms ds perf tc rc show ?thesis by (simp add: metrics_def)
        next
          case Inr
          with assms ds perf tc rc show ?thesis by (simp add: metrics_def)
        qed
      qed
    qed
  qed
qed

text \<open>
  C9. On a frame that lacks "Quantity" or "Received Quantity", the reconciliation
  computes nothing and reports the missing columns (the message of line 133); the report
  is not an exception. The other figures go ahead: when the delay analysis, the supplier
  table, the customer ranking and the summary return, the page shows exactly their
  results next to the report, and if the run stops, it is one of those four that raised.
  Their results are those they give on any frame from which the present one arises by
  leaving out a quantity column.
\<close>

theorem reconcile_columns_missing:
  assumes "''Quantity'' \<notin> set (columns fdf) \<or> ''Received Quantity'' \<notin> set (columns fdf)"
  shows "reconcile ar fdf = Inr Columns_missing \<and>
         (\<forall>ds perf tc sm.
            delayed_shipments delay_threshold fdf = Inr ds \<and>
            supplier_performance fdf = Inr perf \<and>
            top_customers fdf = Inr tc \<and>
            summary_metrics fdf = Inr sm \<longrightarrow>
            metrics ar delay_threshold fdf
              = Inr \<lparr>shown = fdf, delayed = ds, alert = critical_alert ds, performance = perf,
                     suppliers_top = top_suppliers perf, customers_top = tc,
                     reconciled = Columns_missing, figures = sm\<rparr>) \<and>
         (\<forall>e. metrics ar delay_threshold fdf = Inl e \<longrightarrow>
            delayed_shipments delay_threshold fdf = Inl e \<or>
            supplier_performance fdf = Inl e \<or>
            top_customers fdf = Inl e \<or>
            summary_metrics fdf = Inl e) \<and>
         (\<forall>c full.
            (c = ''Quantity'' \<or> c = ''Received Quantity'') \<and> fdf = without_column c full \<longrightarrow>
            delayed_shipments delay_threshold fdf
              = map_sum id (without_column c) (delayed_shipments delay_threshold full) \<and>
            supplier_performance fdf = supplier_performance full \<and>
            top_customers fdf = top_customers full \<and>
            summary_metrics fdf = summary_metrics full)"
proof -
  from assms have r: "reconcile ar fdf = Inr Columns_missing"
    by (auto simp: reconcile_def)
  have m: "\<forall>ds perf tc sm.
            delayed_shipments delay_threshold fdf = Inr ds \<and>
            supplier_performance fdf = Inr perf \<and>
            top_customers fdf = Inr tc \<and>
            summary_metrics fdf = Inr sm \<longrightarrow>
            metrics ar delay_threshold fdf
              = Inr \<lparr>shown = fdf, delayed = ds, alert = critical_alert ds, performance = perf,
                     suppliers_top = top_suppliers perf, customers_top = tc,
                     reconciled = Columns_missing, figures = sm\<rparr>"
    using r by (simp add: metrics_def)
  have e: "\<forall>e. metrics ar delay_threshold fdf = Inl e \<longrightarrow>
            delayed_shipments delay_threshold fdf = Inl e \<or>
            supplier_performance fdf = Inl e \<or>
            top_customers fdf = Inl e \<or>
            summary_metrics fdf = Inl e"
    using metrics_Inl[of ar delay_threshold fdf] r by auto
  have w: "\<forall>c full.
            (c = ''Quantity'' \<or> c = ''Received Quantity'') \<and> fdf = without_column c full \<longrightarrow>
            delayed_shipments delay_threshold fdf
              = map_sum id (without_column c) (delayed_shipments delay_threshold full) \<and>
            supplier_performance fdf = supplier_performance full \<and>
            top_customers fdf = top_customers full \<and>
            summary_metrics fdf = summary_metrics full"
  proof (intro allI impI)
    fix c full
    assume a: "(c = ''Quantity'' \<or> c = ''Received Quantity'') \<and> fdf = without_column c full"
    then have q: "c = ''Quantity'' \<or> c = ''Received Quantity''" and f: "fdf = without_column c full"
      by simp_all
    show "delayed_shipments delay_threshold fdf
              = map_sum id (without_column c) (delayed_shipments delay_threshold full) \<and>
            supplier_performance fdf = supplier_performance full \<and>
            top_customers fdf = top_customers full \<and>
            summary_metrics fdf = summary_metrics full"
      unfolding f
      by (intro conjI delayed_shipments_without[OF q] supplier_performance_without[OF q]
          top_customers_without[OF q] summary_metrics_without[OF q])
  qed
  show ?thesis
    by (intro conjI r m e w)
qed

theorem reconcile_columns_missing_witness:
  "''Quantity'' \<notin> set (columns no_quantity_frame) \<and>
   reconcile int64_arith no_quantity_frame = Inr Columns_missing \<and>
   (\<exists>d. metrics int64_arith 10 no_quantity_frame = Inr d \<and>
        reconciled d = Columns_missing \<and>
        map label (rows (delayed d)) = [0] \<and>
        map supplier_name (performance d) = [Str ''Acme'']) \<and>
   supplier_performance no_quantity_frame
     = supplier_performance (without_column ''Received Quantity'' delay_frame)"
proof -
  have h: "''Quantity'' \<notin> set (columns no_quantity_frame)"
    by code_simp
  then have h': "''Quantity'' \<notin> set (columns no_quantity_frame) \<or>
                 ''Received Quantity'' \<notin> set (columns no_quantity_frame)"
    by (rule disjI1)
  note t = reconcile_columns_missing[OF h', of int64_arith 10]
  have "\<not> isl (delayed_shipments 10 no_quantity_frame)" by code_simp
  then obtain ds where ds: "delayed_shipments 10 no_quantity_frame = Inr ds"
    by (cases "delayed_shipments 10 no_quantity_frame") auto
  have "\<not> isl (supplier_performance no_quantity_frame)" by code_simp
  then obtain perf where perf: "supplier_performance no_quantity_frame = Inr perf"
    by (cases "supplier_performance no_quantity_frame") auto
  have "\<not> isl (top_customers no_quantity_frame)" by code_simp
  then obtain tc where tc: "top_customers no_quantity_frame = Inr tc"
    by (cases "top_customers no_quantity_frame") auto
  have "\<not> isl (summary_metrics no_quantity_frame)" by code_simp
  then obtain sm where sm: "summary_metrics no_quantity_frame = Inr sm"
    by (cases "summary_metrics no_quantity_frame") auto
  from t have "delayed_shipments 10 no_quantity_frame = Inr ds \<and>
            supplier_performance no_quantity_frame = Inr perf \<and>
            top_customers no_quantity_frame = Inr tc \<and>
            summary_metrics no_quantity_frame = Inr sm \<longrightarrow>
            metrics int64_arith 10 no_quantity_frame
             = Inr \<lparr>shown = no_quantity_frame, delayed = ds, alert = critical_alert ds,
                    performance = perf, suppliers_top = top_suppliers perf, customers_top = tc,
                    reconciled = Columns_missing, figures = sm\<rparr>"
    by (elim conjE allE)
  with ds perf tc sm
  have d: "metrics int64_arith 10 no_quantity_frame
             = Inr \<lparr>shown = no_quantity_frame, delayed = ds, alert = critical_alert ds,
                    performance = perf, suppliers_top = top_suppliers perf, customers_top = tc,
                    reconciled = Columns_missing, figures = sm\<rparr>"
    by simp
  have "map label (rows (projr (delayed_shipments 10 no_quantity_frame))) = [0]"
    by code_simp
  with ds have l: "map label (rows ds) = [0]" by simp
  have "map supplier_name (projr (supplier_performance no_quantity_frame)) = [Str ''Acme'']"
    by code_simp
  with perf have n: "map supplier_name perf = [Str ''Acme'']" by simp
  have e: "\<exists>d. metrics int64_arith 10 no_quantity_frame = Inr d \<and>
        reconciled d = Columns_missing \<and>
        map label (rows (delayed d)) = [0] \<and>
        map supplier_name (performance d) = [Str ''Acme'']"
    using d l n by simp
  have nq: "no_quantity_frame
              = without_column ''Quantity'' (without_column ''Received Quantity'' delay_frame)"
    by (simp add: no_quantity_frame_def)
  note w = t[THEN conjunct2, THEN conjunct2, THEN conjunct2, rule_format,
      of "''Quantity''" "without_column ''Received Quantity'' delay_frame"]
  have s: "supplier_performance no_quantity_frame
     = supplier_performance (without_column ''Received Quantity'' delay_frame)"
    using w nq by simp
  from t have r: "reconcile int64_arith no_quantity_frame = Inr Columns_missing"
    by (rule conjunct1)
  show ?thesis
    by (intro conjI h r e s)
qed

end
